theory Spec2Isabelle
  imports
    Complex_Main
    "HOL-Library.Char_ord"
    "HOL-Library.List_Lexorder"
    "HOL-Library.Product_Lexorder"
begin

section \<open>ProtAtlasViz: the tissue dictionary, the tissue resolver, the aggregator
  and the chart builders\<close>

text \<open>
  The development embeds \<^verbatim>\<open>src/data_loader.py\<close> (class \<^verbatim>\<open>DataLoader\<close>) and the chart
  builders and the callback \<^verbatim>\<open>update_visualization\<close> of \<^verbatim>\<open>src/app.py\<close>.

  Conventions of the embedding.
  \<^item> A Python \<^verbatim>\<open>str\<close> is a \<open>string\<close>; the text is taken as ASCII, so that
    \<^verbatim>\<open>str.strip\<close> removes the ASCII white space and \<^verbatim>\<open>str.lower\<close> maps \<open>A\<close>-\<open>Z\<close> to
    \<open>a\<close>-\<open>z\<close>.
  \<^item> A Python \<^verbatim>\<open>dict\<close> is an association list in insertion order with one entry
    per key: assigning to a key that is present replaces the value and keeps the
    position, assigning to a new key appends.
  \<^item> A pandas \<^verbatim>\<open>DataFrame\<close> of the expression table is a list of rows; the column
    \<^verbatim>\<open>nTPM\<close> (float64) is taken over the reals, with exact arithmetic.
  \<^item> An exception is a value \<open>Inl e\<close> of a result type \<open>error + 'a\<close>.
\<close>

subsection \<open>Strings\<close>

definition is_space :: "char \<Rightarrow> bool" where
  "is_space c \<longleftrightarrow>
     c \<in> set [CHR 0x09, CHR 0x0A, CHR 0x0B, CHR 0x0C, CHR 0x0D,
              CHR 0x1C, CHR 0x1D, CHR 0x1E, CHR 0x1F, CHR 0x20]"

text \<open>\<^verbatim>\<open>s.strip()\<close>\<close>

definition strip :: "string \<Rightarrow> string" where
  "strip s = rev (dropWhile is_space (rev (dropWhile is_space s)))"

definition lower_char :: "char \<Rightarrow> char" where
  "lower_char c =
     (case map_of (zip ''ABCDEFGHIJKLMNOPQRSTUVWXYZ'' ''abcdefghijklmnopqrstuvwxyz'') c of
        Some d \<Rightarrow> d
      | None \<Rightarrow> c)"

text \<open>\<^verbatim>\<open>s.lower()\<close>\<close>

definition lower :: "string \<Rightarrow> string" where
  "lower s = map lower_char s"

text \<open>
  \<^verbatim>\<open>for line in f\<close>: the lines of a text file, each with its terminating newline
  (the last line has none when the text does not end with one).
\<close>

fun file_lines :: "string \<Rightarrow> string list" where
  "file_lines [] = []"
| "file_lines (c # cs) =
     (if c = CHR 0x0A then [c] # file_lines cs
      else (case file_lines cs of
              [] \<Rightarrow> [[c]]
            | l # ls \<Rightarrow> (c # l) # ls))"

subsection \<open>Dictionaries\<close>

type_synonym ('k, 'v) dict = "('k \<times> 'v) list"

text \<open>\<^verbatim>\<open>d[k] = v\<close>\<close>

fun dict_set :: "('k, 'v) dict \<Rightarrow> 'k \<Rightarrow> 'v \<Rightarrow> ('k, 'v) dict" where
  "dict_set [] k v = [(k, v)]"
| "dict_set ((k', v') # d) k v =
     (if k' = k then (k, v) # d else (k', v') # dict_set d k v)"

text \<open>\<^verbatim>\<open>d.get(k)\<close>, \<open>None\<close> for a missing key\<close>

definition dict_get :: "('k, 'v) dict \<Rightarrow> 'k \<Rightarrow> 'v option" where
  "dict_get d k = map_of d k"

text \<open>\<^verbatim>\<open>d.get(k, default)\<close>\<close>

definition dict_get_default :: "('k, 'v) dict \<Rightarrow> 'k \<Rightarrow> 'v \<Rightarrow> 'v" where
  "dict_get_default d k dflt = (case dict_get d k of Some v \<Rightarrow> v | None \<Rightarrow> dflt)"

definition dict_keys :: "('k, 'v) dict \<Rightarrow> 'k list" where
  "dict_keys d = map fst d"

datatype error = KeyError | ValueError

text \<open>\<^verbatim>\<open>d[k].append(x)\<close>: \<^verbatim>\<open>d[k]\<close> raises \<^verbatim>\<open>KeyError\<close> for a missing key.\<close>

fun dict_append :: "('k, 'v list) dict \<Rightarrow> 'k \<Rightarrow> 'v \<Rightarrow> error + ('k, 'v list) dict" where
  "dict_append [] k x = Inl KeyError"
| "dict_append ((k', xs) # d) k x =
     (if k' = k then Inr ((k', xs @ [x]) # d)
      else (case dict_append d k x of
              Inl e \<Rightarrow> Inl e
            | Inr d' \<Rightarrow> Inr ((k', xs) # d')))"

subsection \<open>The tissue dictionary parser\<close>

text \<open>
  \<^verbatim>\<open>DataLoader.load_histology_dictionary\<close>. The loop state is the dictionary
  \<^verbatim>\<open>tissue_groups\<close> and \<^verbatim>\<open>current_group\<close> (\<open>None\<close> before the first header).
\<close>

type_synonym parse_state = "(string, string list) dict \<times> string option"

text \<open>\<^verbatim>\<open>line.startswith('#')\<close>\<close>

definition starts_with_hash :: "string \<Rightarrow> bool" where
  "starts_with_hash line = (case line of [] \<Rightarrow> False | c # _ \<Rightarrow> c = CHR ''#'')"

text \<open>One iteration of the loop body, on the raw line.\<close>

definition parse_line :: "parse_state \<Rightarrow> string \<Rightarrow> error + parse_state" where
  "parse_line st raw =
     (let tissue_groups = fst st; current_group = snd st; line = strip raw in
      if line = [] then Inr st
      else if starts_with_hash line then
        (let g = strip (tl line) in Inr (dict_set tissue_groups g [], Some g))
      else (case current_group of
              None \<Rightarrow> Inr st
            | Some g \<Rightarrow>
                if g = [] then Inr st
                else (case dict_append tissue_groups g line of
                        Inl e \<Rightarrow> Inl e
                      | Inr d \<Rightarrow> Inr (d, current_group))))"

fun parse_lines :: "parse_state \<Rightarrow> string list \<Rightarrow> error + parse_state" where
  "parse_lines st [] = Inr st"
| "parse_lines st (l # ls) =
     (case parse_line st l of
        Inl e \<Rightarrow> Inl e
      | Inr st' \<Rightarrow> parse_lines st' ls)"

text \<open>The argument is the text of the file at \<^verbatim>\<open>self.histology_path\<close>.\<close>

definition load_histology_dictionary :: "string \<Rightarrow> error + (string, string list) dict" where
  "load_histology_dictionary text =
     (case parse_lines ([], None) (file_lines text) of
        Inl e \<Rightarrow> Inl e
      | Inr st \<Rightarrow> Inr (fst st))"

subsection \<open>The expression table\<close>

text \<open>
  One row of \<^verbatim>\<open>rna_tissue_consensus.tsv\<close>: the columns \<^verbatim>\<open>Gene\<close>, \<^verbatim>\<open>Gene name\<close>,
  \<^verbatim>\<open>Tissue\<close> and \<^verbatim>\<open>nTPM\<close>.
\<close>

record row =
  Gene :: string
  Gene_name :: string
  Tissue :: string
  nTPM :: real

text \<open>
  \<^verbatim>\<open>Series.unique()\<close>: the distinct values in order of first appearance.
\<close>

definition insert_unique :: "'a list \<Rightarrow> 'a \<Rightarrow> 'a list" where
  "insert_unique seen x = (if x \<in> set seen then seen else seen @ [x])"

definition unique :: "'a list \<Rightarrow> 'a list" where
  "unique xs = foldl insert_unique [] xs"

subsection \<open>The tissue resolver\<close>

text \<open>
  The methods of \<^verbatim>\<open>DataLoader\<close> read \<^verbatim>\<open>self.tissue_groups\<close> and
  \<^verbatim>\<open>self.expression_data\<close>, which the application loads once at start; the
  functions below take both as arguments.
\<close>

text \<open>\<^verbatim>\<open>[t for t in all_tissues_in_data if t.lower() == tissue.lower()]\<close>\<close>

definition matching_tissues :: "string list \<Rightarrow> string \<Rightarrow> string list" where
  "matching_tissues all_tissues_in_data tissue =
     filter (\<lambda>t. lower t = lower tissue) all_tissues_in_data"

text \<open>The body of the inner loop of \<^verbatim>\<open>get_tissue_to_group_mapping\<close>.\<close>

definition assign_tissue ::
  "string list \<Rightarrow> string \<Rightarrow> (string, string) dict \<Rightarrow> string \<Rightarrow> (string, string) dict" where
  "assign_tissue all_tissues_in_data grp tissue_to_group tissue =
     (case matching_tissues all_tissues_in_data tissue of
        [] \<Rightarrow> tissue_to_group
      | t # _ \<Rightarrow> dict_set tissue_to_group t grp)"

definition get_tissue_to_group_mapping ::
  "(string, string list) dict \<Rightarrow> row list \<Rightarrow> (string, string) dict" where
  "get_tissue_to_group_mapping tissue_groups expression_data =
     (let all_tissues_in_data = unique (map Tissue expression_data) in
      foldl (\<lambda>tissue_to_group (grp, tissues).
               foldl (assign_tissue all_tissues_in_data grp) tissue_to_group tissues)
        [] tissue_groups)"

text \<open>\<^verbatim>\<open>DataLoader.get_expression_for_genes\<close>\<close>

definition get_expression_for_genes :: "row list \<Rightarrow> string list \<Rightarrow> row list" where
  "get_expression_for_genes expression_data gene_names =
     filter (\<lambda>r. Gene_name r \<in> set gene_names) expression_data"

text \<open>The body of the inner loop of \<^verbatim>\<open>get_ordered_tissues_by_group\<close>.\<close>

definition place_tissue :: "string list \<Rightarrow> string list \<Rightarrow> string \<Rightarrow> string list" where
  "place_tissue all_tissues_in_data ordered_tissues tissue =
     (case matching_tissues all_tissues_in_data tissue of
        [] \<Rightarrow> ordered_tissues
      | t # _ \<Rightarrow> ordered_tissues @ [t])"

text \<open>The body of the last loop: tissues that are not in the dictionary.\<close>

definition place_other ::
  "string list \<times> (string, string) dict \<Rightarrow> string \<Rightarrow> string list \<times> (string, string) dict" where
  "place_other acc tissue =
     (let ordered_tissues = fst acc; tissue_to_group = snd acc in
      if tissue \<notin> set ordered_tissues
      then (ordered_tissues @ [tissue], dict_set tissue_to_group tissue ''Other'')
      else acc)"

definition get_ordered_tissues_by_group ::
  "(string, string list) dict \<Rightarrow> row list \<Rightarrow> string list \<times> (string, string) dict" where
  "get_ordered_tissues_by_group tissue_groups expression_data =
     (let tissue_to_group = get_tissue_to_group_mapping tissue_groups expression_data;
          all_tissues_in_data = unique (map Tissue expression_data);
          ordered_tissues =
            foldl (\<lambda>ordered (grp, tissues).
                     foldl (place_tissue all_tissues_in_data) ordered tissues)
              [] tissue_groups
      in foldl place_other (ordered_tissues, tissue_to_group) all_tissues_in_data)"

subsection \<open>The aggregator\<close>

text \<open>
  \<^verbatim>\<open>data['Tissue'].map(tissue_to_group)\<close> followed by \<^verbatim>\<open>fillna('Other')\<close>: the organ
  group of a row.
\<close>

definition organ_group :: "(string, string) dict \<Rightarrow> row \<Rightarrow> string" where
  "organ_group tissue_to_group r = dict_get_default tissue_to_group (Tissue r) ''Other''"

definition group_key :: "(string, string) dict \<Rightarrow> row \<Rightarrow> string \<times> string \<times> string" where
  "group_key tissue_to_group r = (Gene r, Gene_name r, organ_group tissue_to_group r)"

text \<open>\<^verbatim>\<open>Series.mean()\<close> of a non-empty group.\<close>

definition mean :: "real list \<Rightarrow> real" where
  "mean xs = sum_list xs / real (length xs)"

text \<open>
  \<^verbatim>\<open>groupby([...])['nTPM'].mean().reset_index()\<close>: one row for each key, the keys
  in ascending order; the group column is then renamed to \<^verbatim>\<open>Tissue\<close>.
\<close>

definition aggregate_by_organ_group ::
  "(string, string list) dict \<Rightarrow> row list \<Rightarrow> row list \<Rightarrow> row list" where
  "aggregate_by_organ_group tissue_groups expression_data data =
     (let tissue_to_group = get_tissue_to_group_mapping tissue_groups expression_data in
      map (\<lambda>k. \<lparr>Gene = fst k, Gene_name = fst (snd k), Tissue = snd (snd k),
                 nTPM = mean (map nTPM (filter (\<lambda>r. group_key tissue_to_group r = k) data))\<rparr>)
        (sort (remdups (map (group_key tissue_to_group) data))))"

subsection \<open>DataFrame objects and the shared state\<close>

text \<open>
  The chart builders receive their \<^verbatim>\<open>DataFrame\<close> by reference, so the objects live
  in a store. A frame holds its rows and, once \<^verbatim>\<open>data['Tissue']\<close> has been replaced
  by a \<^verbatim>\<open>pd.Categorical\<close>, the categories of that column (\<open>None\<close> while the column
  holds the strings, as in every frame a builder receives). Under the categories
  \<open>cs\<close> a tissue outside \<open>cs\<close> reads as \<^verbatim>\<open>NaN\<close>, which is \<open>None\<close>.
\<close>

record frame =
  rows :: "row list"
  tissue_categories :: "string list option"

definition tissue_cell :: "frame \<Rightarrow> row \<Rightarrow> string option" where
  "tissue_cell f r =
     (case tissue_categories f of
        None \<Rightarrow> Some (Tissue r)
      | Some cs \<Rightarrow> if Tissue r \<in> set cs then Some (Tissue r) else None)"

text \<open>
  The store: the \<^verbatim>\<open>DataFrame\<close> objects by address, the first unused address, and
  the fields \<^verbatim>\<open>expression_data\<close> (an address) and \<^verbatim>\<open>tissue_groups\<close> of the global
  \<^verbatim>\<open>data_loader\<close>.
\<close>

record store =
  frames :: "nat \<Rightarrow> frame"
  next_addr :: nat
  loader_expression_data :: nat
  loader_tissue_groups :: "(string, string list) dict"

text \<open>A new \<^verbatim>\<open>DataFrame\<close> object.\<close>

definition new_frame :: "store \<Rightarrow> frame \<Rightarrow> nat \<times> store" where
  "new_frame st f =
     (next_addr st,
      st\<lparr>frames := (frames st)(next_addr st := f), next_addr := Suc (next_addr st)\<rparr>)"

text \<open>\<^verbatim>\<open>data.copy()\<close>\<close>

definition copy_frame :: "store \<Rightarrow> nat \<Rightarrow> nat \<times> store" where
  "copy_frame st a = new_frame st (frames st a)"

text \<open>
  \<^verbatim>\<open>data['Tissue'] = pd.Categorical(data['Tissue'], categories=..., ordered=True)\<close>
  on the object at \<open>a\<close>; \<^verbatim>\<open>pd.Categorical\<close> raises \<^verbatim>\<open>ValueError\<close> when the categories
  are not unique.
\<close>

definition set_tissue_categorical :: "store \<Rightarrow> nat \<Rightarrow> string list \<Rightarrow> error + store" where
  "set_tissue_categorical st a categories =
     (if distinct categories
      then Inr (st\<lparr>frames := (frames st)
                  (a := (frames st a)\<lparr>tissue_categories := Some categories\<rparr>)\<rparr>)
      else Inl ValueError)"

subsection \<open>Chart descriptions\<close>

text \<open>
  A figure keeps what the builders compute: the traces, the separator lines, the
  titles that depend on the arguments, and the size. The styling that is the same
  for every call (fonts, colours, tick angle, legend box) is left out. A hover
  text is kept as the values its format string prints.
\<close>

datatype hover =
    HoverNA string string
  | HoverLinear string "string option" string real
  | HoverLog string "string option" string real real

record heatmap =
  hm_z :: "real option list list"
  hm_x :: "string list"
  hm_y :: "string list"
  hm_customdata :: "hover list list"
  hm_vlines :: "real list"

record trace =
  trace_name :: string
  trace_x :: "string option list"
  trace_y :: "real list"
  trace_customdata :: "hover list"

record layout =
  title_text :: string
  value_title :: string
  fig_height :: nat
  fig_width :: nat

datatype figure =
    HeatmapFigure heatmap layout
  | BarFigure "trace list" layout
  | BoxFigure "trace list" layout

text \<open>\<^verbatim>\<open>max(800, min(2000, num_tissues * 25 + 200))\<close>\<close>

definition dynamic_width :: "nat \<Rightarrow> nat" where
  "dynamic_width num_tissues = max 800 (min 2000 (num_tissues * 25 + 200))"

subsection \<open>The heatmap\<close>

text \<open>
  \<^verbatim>\<open>pivot_data.loc[gene, tissue]\<close>: the value of the pivot table, \<open>None\<close> for a
  combination that has no row (\<^verbatim>\<open>NaN\<close>).
\<close>

definition pivot_cell :: "row list \<Rightarrow> string \<Rightarrow> string \<Rightarrow> real option" where
  "pivot_cell data gene tissue =
     map_option nTPM (find (\<lambda>r. Gene_name r = gene \<and> Tissue r = tissue) data)"

definition heatmap_hover ::
  "row list \<Rightarrow> (string, string) dict \<Rightarrow> bool \<Rightarrow> string \<Rightarrow> string \<Rightarrow> hover" where
  "heatmap_hover data tissue_to_group log_scale gene tissue =
     (case pivot_cell data gene tissue of
        None \<Rightarrow> HoverNA gene tissue
      | Some v \<Rightarrow>
          (let grp = dict_get_default tissue_to_group tissue ''Other'' in
           if log_scale then HoverLog gene (Some tissue) grp v (2 powr v - 1)
           else HoverLinear gene (Some tissue) grp v))"

text \<open>
  The loop that adds the group separators: \<open>current_group\<close> is \<open>None\<close> at the
  start, \<open>i\<close> is the index of the column, and a line is added at \<open>i - 0.5\<close>.
\<close>

fun group_separators ::
  "(string, string) dict \<Rightarrow> string option \<Rightarrow> nat \<Rightarrow> string list \<Rightarrow> real list" where
  "group_separators tissue_to_group current_group i [] = []"
| "group_separators tissue_to_group current_group i (tissue # columns) =
     (let grp = dict_get_default tissue_to_group tissue ''Other'' in
      if Some grp \<noteq> current_group
      then (real i - 1 / 2) # group_separators tissue_to_group (Some grp) (Suc i) columns
      else group_separators tissue_to_group current_group (Suc i) columns)"

text \<open>
  \<^verbatim>\<open>create_heatmap\<close>. \<^verbatim>\<open>data.pivot\<close> raises \<^verbatim>\<open>ValueError\<close> when a pair (gene name,
  tissue) occurs twice; its index and columns are sorted. When a column label is
  repeated, \<^verbatim>\<open>pivot_data.loc[gene, tissue]\<close> is a \<^verbatim>\<open>Series\<close> and \<^verbatim>\<open>if pd.isna(value)\<close>
  raises \<^verbatim>\<open>ValueError\<close> in the first iteration of the hover loop. The function
  creates no object that outlives it and assigns to none that it received.
\<close>

definition create_heatmap ::
  "store \<Rightarrow> nat \<Rightarrow> string list \<Rightarrow> (string, string) dict \<Rightarrow> bool \<Rightarrow> bool \<Rightarrow>
     store \<times> (error + figure)" where
  "create_heatmap st data ordered_tissues tissue_to_group show_groups log_scale =
     (let d = rows (frames st data) in
      if \<not> distinct (map (\<lambda>r. (Gene_name r, Tissue r)) d) then (st, Inl ValueError)
      else
        (let index = sort (remdups (map Gene_name d));
             pivot_columns = sort (remdups (map Tissue d));
             available_tissues = filter (\<lambda>t. t \<in> set pivot_columns) ordered_tissues
         in if index \<noteq> [] \<and> \<not> distinct available_tissues then (st, Inl ValueError)
            else
              (st, Inr (HeatmapFigure
                 \<lparr>hm_z = map (\<lambda>gene. map (pivot_cell d gene) available_tissues) index,
                  hm_x = available_tissues,
                  hm_y = index,
                  hm_customdata =
                    map (\<lambda>gene. map (heatmap_hover d tissue_to_group log_scale gene)
                                  available_tissues) index,
                  hm_vlines =
                    (if show_groups
                     then group_separators tissue_to_group None 0 available_tissues
                     else [])\<rparr>
                 \<lparr>title_text =
                    ''Gene Expression Heatmap'' @ (if log_scale then '' (Log Scale)'' else []),
                  value_title = (if log_scale then ''log2(nTPM+1)'' else ''nTPM''),
                  fig_height = max 600 (length index * 60),
                  fig_width = dynamic_width (length available_tissues)\<rparr>))))"

subsection \<open>The bar chart and the box plot\<close>

definition bar_hover :: "frame \<Rightarrow> (string, string) dict \<Rightarrow> bool \<Rightarrow> string \<Rightarrow> row \<Rightarrow> hover" where
  "bar_hover f tissue_to_group log_scale gene r =
     (let tissue = tissue_cell f r;
          grp = (case tissue of
                   None \<Rightarrow> ''Other''
                 | Some t \<Rightarrow> dict_get_default tissue_to_group t ''Other'')
      in if log_scale then HoverLog gene tissue grp (nTPM r) (2 powr (nTPM r) - 1)
         else HoverLinear gene tissue grp (nTPM r))"

text \<open>The loop over \<^verbatim>\<open>data['Gene name'].unique()\<close> of \<^verbatim>\<open>create_bar_chart\<close>.\<close>

definition bar_traces :: "frame \<Rightarrow> (string, string) dict \<Rightarrow> bool \<Rightarrow> trace list" where
  "bar_traces f tissue_to_group log_scale =
     map (\<lambda>gene.
            (let gene_data = filter (\<lambda>r. Gene_name r = gene) (rows f) in
             \<lparr>trace_name = gene,
              trace_x = map (tissue_cell f) gene_data,
              trace_y = map nTPM gene_data,
              trace_customdata = map (bar_hover f tissue_to_group log_scale gene) gene_data\<rparr>))
       (unique (map Gene_name (rows f)))"

text \<open>The same loop of \<^verbatim>\<open>create_box_plot\<close>; a box has no hover text.\<close>

definition box_traces :: "frame \<Rightarrow> trace list" where
  "box_traces f =
     map (\<lambda>gene.
            (let gene_data = filter (\<lambda>r. Gene_name r = gene) (rows f) in
             \<lparr>trace_name = gene,
              trace_x = map (tissue_cell f) gene_data,
              trace_y = map nTPM gene_data,
              trace_customdata = []\<rparr>))
       (unique (map Gene_name (rows f)))"

text \<open>
  \<^verbatim>\<open>create_bar_chart\<close>. The argument \<open>sort_values\<close> stands for
  \<^verbatim>\<open>DataFrame.sort_values('Tissue')\<close>, which returns a new frame; pandas sorts with
  quicksort there, so the order of rows with the same tissue is not fixed by the
  source.
\<close>

definition create_bar_chart ::
  "(frame \<Rightarrow> frame) \<Rightarrow> store \<Rightarrow> nat \<Rightarrow> string list \<Rightarrow> (string, string) dict \<Rightarrow> bool \<Rightarrow>
     store \<times> (error + figure)" where
  "create_bar_chart sort_values st data ordered_tissues tissue_to_group log_scale =
     (let (data1, st1) = copy_frame st data in
      case set_tissue_categorical st1 data1 ordered_tissues of
        Inl e \<Rightarrow> (st1, Inl e)
      | Inr st2 \<Rightarrow>
          (let (data2, st3) = new_frame st2 (sort_values (frames st2 data1));
               f = frames st3 data2;
               num_tissues = length (unique (map (tissue_cell f) (rows f)))
           in (st3, Inr (BarFigure (bar_traces f tissue_to_group log_scale)
                 \<lparr>title_text =
                    ''Gene Expression by Tissue'' @ (if log_scale then '' (Log Scale)'' else []),
                  value_title = (if log_scale then ''log2(nTPM+1)'' else ''nTPM''),
                  fig_height = 700,
                  fig_width = dynamic_width num_tissues\<rparr>))))"

text \<open>\<^verbatim>\<open>create_box_plot\<close>\<close>

definition create_box_plot ::
  "(frame \<Rightarrow> frame) \<Rightarrow> store \<Rightarrow> nat \<Rightarrow> string list \<Rightarrow> (string, string) dict \<Rightarrow> bool \<Rightarrow>
     store \<times> (error + figure)" where
  "create_box_plot sort_values st data ordered_tissues tissue_to_group log_scale =
     (let (data1, st1) = copy_frame st data in
      case set_tissue_categorical st1 data1 ordered_tissues of
        Inl e \<Rightarrow> (st1, Inl e)
      | Inr st2 \<Rightarrow>
          (let (data2, st3) = new_frame st2 (sort_values (frames st2 data1));
               f = frames st3 data2;
               num_tissues = length (unique (map (tissue_cell f) (rows f)))
           in (st3, Inr (BoxFigure (box_traces f)
                 \<lparr>title_text =
                    ''Gene Expression Distribution'' @
                      (if log_scale then '' (Log Scale)'' else []),
                  value_title = (if log_scale then ''log2(nTPM+1)'' else ''nTPM''),
                  fig_height = 700,
                  fig_width = dynamic_width num_tissues\<rparr>))))"

subsection \<open>The callback\<close>

datatype alert_color = Info | Warning | Danger

text \<open>What the callback returns: a \<^verbatim>\<open>dbc.Alert\<close> or a \<^verbatim>\<open>dcc.Graph\<close>.\<close>

datatype component = Alert string alert_color | Graph figure

text \<open>The alerts; the messages are given without their leading pictograph.\<close>

definition select_genes_alert :: component where
  "select_genes_alert = Alert ''Please select one or more genes to visualize'' Info"

definition too_many_genes_alert :: component where
  "too_many_genes_alert = Alert ''Please select no more than 10 genes'' Warning"

definition no_data_alert :: component where
  "no_data_alert = Alert ''No expression data found for selected genes'' Warning"

definition invalid_type_alert :: component where
  "invalid_type_alert = Alert ''Invalid visualization type'' Danger"

text \<open>\<^verbatim>\<open>np.log2(expression_data['nTPM'] + 1)\<close>, on one row\<close>

definition log_transform :: "row \<Rightarrow> row" where
  "log_transform r = r\<lparr>nTPM := log 2 (nTPM r + 1)\<rparr>"

text \<open>\<^verbatim>\<open>dcc.Graph(figure=fig, ...)\<close> around the figure of a builder.\<close>

definition graph_of :: "store \<times> (error + figure) \<Rightarrow> store \<times> (error + component)" where
  "graph_of r = (fst r, case snd r of Inl e \<Rightarrow> Inl e | Inr fig \<Rightarrow> Inr (Graph fig))"

text \<open>
  \<^verbatim>\<open>update_visualization\<close> after its two checks of the selection: from the call of
  \<^verbatim>\<open>get_expression_for_genes\<close> to the end.
\<close>

definition build_visualization ::
  "(frame \<Rightarrow> frame) \<Rightarrow> store \<Rightarrow> string list \<Rightarrow> string \<Rightarrow> string \<Rightarrow> string \<Rightarrow>
     store \<times> (error + component)" where
  "build_visualization sort_values st selected_genes grouping viz_type log_scale =
     (let table = rows (frames st (loader_expression_data st));
          tissue_groups = loader_tissue_groups st;
          (data0, st0) =
            new_frame st \<lparr>rows = get_expression_for_genes table selected_genes,
                          tissue_categories = None\<rparr>
      in if rows (frames st0 data0) = [] then (st0, Inr no_data_alert)
         else
           (let (ordered0, tissue_to_group0) = get_ordered_tissues_by_group tissue_groups table;
                (data1, st1, ordered_tissues, tissue_to_group) =
                  (if grouping = ''organ'' then
                     (let (a, s) =
                            new_frame st0
                              \<lparr>rows = aggregate_by_organ_group tissue_groups table
                                        (rows (frames st0 data0)),
                               tissue_categories = None\<rparr>;
                          ordered = sort (unique (map Tissue (rows (frames s a))))
                      in (a, s, ordered, map (\<lambda>t. (t, t)) ordered))
                   else (data0, st0, ordered0, tissue_to_group0));
                (data2, st2) =
                  (if log_scale = ''log'' then
                     (let (a, s) = copy_frame st1 data1 in
                      (a, s\<lparr>frames := (frames s)
                             (a := (frames s a)\<lparr>rows := map log_transform (rows (frames s a))\<rparr>)\<rparr>))
                   else (data1, st1))
            in if viz_type = ''heatmap'' then
                 graph_of (create_heatmap st2 data2 ordered_tissues tissue_to_group
                             (grouping = ''tissue'') (log_scale = ''log''))
               else if viz_type = ''bar'' then
                 graph_of (create_bar_chart sort_values st2 data2 ordered_tissues tissue_to_group
                             (log_scale = ''log''))
               else if viz_type = ''box'' then
                 graph_of (create_box_plot sort_values st2 data2 ordered_tissues tissue_to_group
                             (log_scale = ''log''))
               else (st2, Inr invalid_type_alert)))"

text \<open>
  \<^verbatim>\<open>update_visualization\<close>. Dash passes \<^verbatim>\<open>None\<close> for a selector that has no value,
  so the selection is optional.
\<close>

definition update_visualization ::
  "(frame \<Rightarrow> frame) \<Rightarrow> store \<Rightarrow> string list option \<Rightarrow> string \<Rightarrow> string \<Rightarrow> string \<Rightarrow>
     store \<times> (error + component)" where
  "update_visualization sort_values st selected_genes grouping viz_type log_scale =
     (case selected_genes of
        None \<Rightarrow> (st, Inr select_genes_alert)
      | Some genes \<Rightarrow>
          if genes = [] then (st, Inr select_genes_alert)
          else if length genes > 10 then (st, Inr too_many_genes_alert)
          else build_visualization sort_values st genes grouping viz_type log_scale)"

subsection \<open>Notions used to state the properties\<close>

text \<open>A raw line that is a group header, and the name of the group it opens.\<close>

definition is_header :: "string \<Rightarrow> bool" where
  "is_header raw = starts_with_hash (strip raw)"

definition header_name :: "string \<Rightarrow> string" where
  "header_name raw = strip (tl (strip raw))"

text \<open>The tissue names of a run of lines: the non-blank lines, trimmed.\<close>

definition tissue_lines :: "string list \<Rightarrow> string list" where
  "tissue_lines ls = filter (\<lambda>l. l \<noteq> []) (map strip ls)"

text \<open>The loop invariant of the parser: the current group is a key of the dictionary.\<close>

definition state_ok :: "parse_state \<Rightarrow> bool" where
  "state_ok st = (case snd st of None \<Rightarrow> True | Some g \<Rightarrow> g \<in> set (dict_keys (fst st)))"

text \<open>The (group, tissue) entries of a dictionary in iteration order.\<close>

definition dictionary_entries :: "(string, string list) dict \<Rightarrow> (string \<times> string) list" where
  "dictionary_entries tissue_groups =
     concat (map (\<lambda>(grp, tissues). map (\<lambda>tissue. (grp, tissue)) tissues) tissue_groups)"

text \<open>The table tissue that a dictionary tissue resolves to.\<close>

definition first_match :: "string list \<Rightarrow> string \<Rightarrow> string option" where
  "first_match all_tissues_in_data tissue =
     (case matching_tissues all_tissues_in_data tissue of [] \<Rightarrow> None | t # _ \<Rightarrow> Some t)"

text \<open>The key of a row of the aggregated table.\<close>

definition aggregated_key :: "row \<Rightarrow> string \<times> string \<times> string" where
  "aggregated_key r = (Gene r, Gene_name r, Tissue r)"

text \<open>
  The table tissues that the entries of the dictionary resolve to, in the order
  of the entries.
\<close>

definition resolved_tissues :: "(string, string list) dict \<Rightarrow> string list \<Rightarrow> string list" where
  "resolved_tissues tissue_groups all_tissues_in_data =
     List.map_filter (\<lambda>e. first_match all_tissues_in_data (snd e))
       (dictionary_entries tissue_groups)"

text \<open>
  One \<^verbatim>\<open>sort_values('Tissue')\<close>: rows in the order of the categories, \<^verbatim>\<open>NaN\<close> last,
  rows of the same tissue in their order in the frame.
\<close>

definition category_code :: "string list \<Rightarrow> string \<Rightarrow> nat" where
  "category_code cs t = length (takeWhile (\<lambda>c. c \<noteq> t) cs)"

definition stable_sort_values :: "frame \<Rightarrow> frame" where
  "stable_sort_values f =
     (case tissue_categories f of
        None \<Rightarrow> f\<lparr>rows := sort_key Tissue (rows f)\<rparr>
      | Some cs \<Rightarrow> f\<lparr>rows := sort_key (\<lambda>r. category_code cs (Tissue r)) (rows f)\<rparr>)"

text \<open>The organ group that the heatmap shows for a column.\<close>

definition column_group :: "(string, string) dict \<Rightarrow> string \<Rightarrow> string" where
  "column_group tissue_to_group tissue = dict_get_default tissue_to_group tissue ''Other''"

text \<open>
  The store when the application has started: \<^verbatim>\<open>data_loader.load_expression_data()\<close>
  has put the table at one address, and \<^verbatim>\<open>data_loader.tissue_groups\<close> holds the parsed
  dictionary.
\<close>

definition initial_store :: "row list \<Rightarrow> (string, string list) dict \<Rightarrow> store" where
  "initial_store table tissue_groups =
     \<lparr>frames = (\<lambda>a. \<lparr>rows = table, tissue_categories = None\<rparr>),
      next_addr = 1,
      loader_expression_data = 0,
      loader_tissue_groups = tissue_groups\<rparr>"

text \<open>
  What a call leaves of the store it started in: every object that existed keeps
  its content, and the fields of \<^verbatim>\<open>data_loader\<close> are the same.
\<close>

definition store_preserved :: "store \<Rightarrow> store \<Rightarrow> bool" where
  "store_preserved st st' \<longleftrightarrow>
     (\<forall>a. a < next_addr st \<longrightarrow> frames st' a = frames st a) \<and>
     next_addr st \<le> next_addr st' \<and>
     loader_expression_data st' = loader_expression_data st \<and>
     loader_tissue_groups st' = loader_tissue_groups st"

text \<open>
  The rows that the callback draws for a selection, and the tissue order it
  passes to the builder: the rows of the selected genes and the order of the
  resolver, or, when the grouping is by organ, the aggregated rows and their
  groups in ascending order.
\<close>

definition chart_rows ::
  "(string, string list) dict \<Rightarrow> row list \<Rightarrow> string list \<Rightarrow> string \<Rightarrow> row list" where
  "chart_rows tissue_groups table genes grouping =
     (if grouping = ''organ''
      then aggregate_by_organ_group tissue_groups table (get_expression_for_genes table genes)
      else get_expression_for_genes table genes)"

definition chart_order ::
  "(string, string list) dict \<Rightarrow> row list \<Rightarrow> string list \<Rightarrow> string \<Rightarrow> string list" where
  "chart_order tissue_groups table genes grouping =
     (if grouping = ''organ''
      then sort (unique (map Tissue (chart_rows tissue_groups table genes grouping)))
      else fst (get_ordered_tissues_by_group tissue_groups table))"

section \<open>Properties\<close>

lemma dict_keys_set: "dict_keys (dict_set d k v) = insert_unique (dict_keys d) k"
  by (induction d) (force simp: dict_keys_def insert_unique_def)+

lemma dict_get_set: "dict_get (dict_set d k v) k' = (if k' = k then Some v else dict_get d k')"
  by (induction d) (auto simp: dict_get_def)

lemma dict_append_set: "dict_append (dict_set d k xs) k x = Inr (dict_set d k (xs @ [x]))"
  by (induction d) auto

lemma dict_append_ok:
  "k \<in> set (dict_keys d) \<Longrightarrow> \<exists>d'. dict_append d k x = Inr d' \<and> dict_keys d' = dict_keys d"
proof (induction d)
  case Nil
  then show ?case by (simp add: dict_keys_def)
next
  case (Cons p d)
  obtain k' xs where p: "p = (k', xs)" by (cases p)
  show ?case
  proof (cases "k' = k")
    case True
    then show ?thesis by (simp add: p dict_keys_def)
  next
    case False
    with Cons.prems have "k \<in> set (dict_keys d)" by (simp add: p dict_keys_def)
    from Cons.IH [OF this] obtain d' where "dict_append d k x = Inr d'" "dict_keys d' = dict_keys d"
      by blast
    with False show ?thesis by (simp add: p dict_keys_def)
  qed
qed

lemma dict_append_other:
  "dict_append d k x = Inr d' \<Longrightarrow> k' \<noteq> k \<Longrightarrow> dict_get d' k' = dict_get d k'"
  by (induction d arbitrary: d') (auto simp: dict_get_def split: if_splits sum.splits)

lemma set_insert_unique: "set (insert_unique xs x) = insert x (set xs)"
  by (auto simp: insert_unique_def)

lemma distinct_insert_unique: "distinct xs \<Longrightarrow> distinct (insert_unique xs x)"
  by (simp add: insert_unique_def)

lemma set_foldl_insert_unique: "set (foldl insert_unique acc xs) = set acc \<union> set xs"
  by (induction xs arbitrary: acc) (auto simp: set_insert_unique)

lemma distinct_foldl_insert_unique: "distinct acc \<Longrightarrow> distinct (foldl insert_unique acc xs)"
  by (induction xs arbitrary: acc) (auto simp: distinct_insert_unique)

lemma set_unique: "set (unique xs) = set xs"
  by (simp add: unique_def set_foldl_insert_unique)

lemma distinct_unique: "distinct (unique xs)"
  by (simp add: unique_def distinct_foldl_insert_unique)

subsection \<open>The parser\<close>

lemma parse_line_blank: "strip raw = [] \<Longrightarrow> parse_line st raw = Inr st"
  by (simp add: parse_line_def)

lemma parse_line_header:
  "is_header raw \<Longrightarrow>
   parse_line st raw = Inr (dict_set (fst st) (header_name raw) [], Some (header_name raw))"
  by (auto simp: parse_line_def is_header_def header_name_def starts_with_hash_def Let_def
      split: list.splits)

lemma not_header_blank: "strip raw = [] \<Longrightarrow> \<not> is_header raw"
  by (simp add: is_header_def starts_with_hash_def)

lemma parse_line_tissue_none:
  "\<not> is_header raw \<Longrightarrow> parse_line (tg, None) raw = Inr (tg, None)"
  by (simp add: parse_line_def is_header_def Let_def)

lemma parse_line_tissue_empty_name:
  "\<not> is_header raw \<Longrightarrow> parse_line (tg, Some []) raw = Inr (tg, Some [])"
  by (simp add: parse_line_def is_header_def Let_def)

lemma parse_line_tissue_some:
  "\<not> is_header raw \<Longrightarrow> strip raw \<noteq> [] \<Longrightarrow> g \<noteq> [] \<Longrightarrow>
   parse_line (tg, Some g) raw =
     (case dict_append tg g (strip raw) of Inl e \<Rightarrow> Inl e | Inr d \<Rightarrow> Inr (d, Some g))"
  by (simp add: parse_line_def is_header_def Let_def)

lemma parse_lines_append:
  "parse_lines st (xs @ ys) =
     (case parse_lines st xs of Inl e \<Rightarrow> Inl e | Inr st' \<Rightarrow> parse_lines st' ys)"
  by (induction xs arbitrary: st) (auto split: sum.splits)

lemma parse_line_ok:
  assumes "state_ok st"
  shows "\<exists>st'. parse_line st raw = Inr st' \<and> state_ok st'"
proof -
  obtain tg cur where st: "st = (tg, cur)" by (cases st)
  consider (blank) "strip raw = []" | (header) "is_header raw"
    | (tissue) "strip raw \<noteq> []" "\<not> is_header raw" by blast
  then show ?thesis
  proof cases
    case blank
    with assms show ?thesis by (simp add: parse_line_blank)
  next
    case header
    then show ?thesis
      by (simp add: parse_line_header state_ok_def dict_keys_set set_insert_unique)
  next
    case tissue
    show ?thesis
    proof (cases cur)
      case None
      with tissue assms show ?thesis by (simp add: st parse_line_tissue_none)
    next
      case (Some g)
      show ?thesis
      proof (cases "g = []")
        case True
        with tissue assms Some show ?thesis by (simp add: st parse_line_tissue_empty_name)
      next
        case False
        from assms Some have "g \<in> set (dict_keys tg)" by (simp add: st state_ok_def)
        from dict_append_ok [OF this, of "strip raw"] obtain d
          where "dict_append tg g (strip raw) = Inr d" "dict_keys d = dict_keys tg" by blast
        with tissue False Some \<open>g \<in> set (dict_keys tg)\<close> show ?thesis
          by (simp add: st parse_line_tissue_some state_ok_def)
      qed
    qed
  qed
qed

lemma parse_lines_ok:
  "state_ok st \<Longrightarrow> \<exists>st'. parse_lines st ls = Inr st' \<and> state_ok st'"
proof (induction ls arbitrary: st)
  case Nil
  then show ?case by simp
next
  case (Cons l ls)
  from parse_line_ok [OF Cons.prems, of l] obtain st1
    where "parse_line st l = Inr st1" "state_ok st1" by blast
  with Cons.IH [of st1] show ?case by simp
qed

lemma state_ok_init: "state_ok ([], None)"
  by (simp add: state_ok_def)

lemma parse_lines_no_header:
  "\<forall>l \<in> set ls. \<not> is_header l \<Longrightarrow> parse_lines (tg, None) ls = Inr (tg, None)"
  by (induction ls) (auto simp: parse_line_tissue_none)

lemma parse_lines_filter_blank:
  "parse_lines st (filter (\<lambda>l. strip l \<noteq> []) ls) = parse_lines st ls"
  by (induction ls arbitrary: st) (auto simp: parse_line_blank split: sum.splits)

lemma parse_lines_body:
  "\<forall>l \<in> set body. \<not> is_header l \<Longrightarrow> g \<noteq> [] \<Longrightarrow>
   parse_lines (dict_set tg g xs, Some g) body =
     Inr (dict_set tg g (xs @ tissue_lines body), Some g)"
proof (induction body arbitrary: xs)
  case Nil
  then show ?case by (simp add: tissue_lines_def)
next
  case (Cons l body)
  show ?case
  proof (cases "strip l = []")
    case True
    with Cons show ?thesis by (simp add: parse_line_blank tissue_lines_def)
  next
    case False
    with Cons.prems have "parse_line (dict_set tg g xs, Some g) l =
        Inr (dict_set tg g (xs @ [strip l]), Some g)"
      by (simp add: parse_line_tissue_some dict_append_set)
    moreover have "tissue_lines (l # body) = strip l # tissue_lines body"
      using False by (simp add: tissue_lines_def)
    ultimately show ?thesis using Cons.IH [of "xs @ [strip l]"] Cons.prems by simp
  qed
qed

lemma parse_lines_body_empty_name:
  "\<forall>l \<in> set body. \<not> is_header l \<Longrightarrow> parse_lines (tg, Some []) body = Inr (tg, Some [])"
  by (induction body) (auto simp: parse_line_tissue_empty_name)

lemma parse_lines_group:
  assumes "is_header h" and "\<forall>l \<in> set body. \<not> is_header l"
  shows "parse_lines st (h # body) =
     Inr (dict_set (fst st) (header_name h)
            (if header_name h = [] then [] else tissue_lines body), Some (header_name h))"
  using assms parse_lines_body [of body "header_name h" "fst st" "[]"]
    parse_lines_body_empty_name [of body "dict_set (fst st) [] []"]
  by (auto simp: parse_line_header)

lemma dict_append_keys: "dict_append d k x = Inr d' \<Longrightarrow> dict_keys d' = dict_keys d"
  by (induction d arbitrary: d') (auto simp: dict_keys_def split: if_splits sum.splits)

lemma parse_line_keeps:
  assumes "parse_line (tg, cur) raw = Inr (tg', cur')"
    and "cur \<noteq> Some g"
    and "\<not> (is_header raw \<and> header_name raw = g)"
  shows "dict_get tg' g = dict_get tg g \<and> cur' \<noteq> Some g"
proof -
  consider (blank) "strip raw = []" | (header) "is_header raw"
    | (tissue) "strip raw \<noteq> []" "\<not> is_header raw" by blast
  then show ?thesis
  proof cases
    case blank
    with assms show ?thesis by (simp add: parse_line_blank)
  next
    case header
    with assms show ?thesis by (auto simp: parse_line_header dict_get_set)
  next
    case tissue
    show ?thesis
    proof (cases cur)
      case None
      with tissue assms show ?thesis by (simp add: parse_line_tissue_none)
    next
      case (Some c)
      show ?thesis
      proof (cases "c = []")
        case True
        with tissue assms Some show ?thesis by (simp add: parse_line_tissue_empty_name)
      next
        case False
        with tissue assms Some show ?thesis
          by (auto simp: parse_line_tissue_some dict_append_other split: sum.splits)
      qed
    qed
  qed
qed

lemma parse_lines_keeps:
  "parse_lines (tg, cur) ls = Inr (tg', cur') \<Longrightarrow> cur \<noteq> Some g \<Longrightarrow>
   \<forall>l \<in> set ls. \<not> (is_header l \<and> header_name l = g) \<Longrightarrow>
   dict_get tg' g = dict_get tg g \<and> cur' \<noteq> Some g"
proof (induction ls arbitrary: tg cur)
  case Nil
  then show ?case by simp
next
  case (Cons l ls)
  from Cons.prems(1) obtain tg1 cur1 where
    l: "parse_line (tg, cur) l = Inr (tg1, cur1)" and
    ls: "parse_lines (tg1, cur1) ls = Inr (tg', cur')"
    by (auto split: sum.splits)
  from parse_line_keeps [OF l Cons.prems(2)] Cons.prems(3)
  have 1: "dict_get tg1 g = dict_get tg g" "cur1 \<noteq> Some g" by auto
  from Cons.IH [OF ls 1(2)] Cons.prems(3) 1(1) show ?case by simp
qed

lemma parse_line_keys:
  assumes "parse_line st raw = Inr st'"
  shows "dict_keys (fst st') =
     (if is_header raw then insert_unique (dict_keys (fst st)) (header_name raw)
      else dict_keys (fst st))"
proof (cases "is_header raw")
  case True
  with assms show ?thesis by (auto simp: parse_line_header dict_keys_set)
next
  case False
  with assms show ?thesis
    by (auto simp: parse_line_def is_header_def Let_def dict_append_keys
        split: if_splits option.splits sum.splits)
qed

lemma parse_lines_keys:
  "parse_lines st ls = Inr st' \<Longrightarrow>
   dict_keys (fst st') =
     foldl insert_unique (dict_keys (fst st)) (map header_name (filter is_header ls))"
proof (induction ls arbitrary: st)
  case Nil
  then show ?case by simp
next
  case (Cons l ls)
  from Cons.prems obtain st1 where
    l: "parse_line st l = Inr st1" and ls: "parse_lines st1 ls = Inr st'"
    by (auto split: sum.splits)
  from Cons.IH [OF ls] parse_line_keys [OF l] show ?case by simp
qed

lemma load_keys:
  "load_histology_dictionary text = Inr d \<Longrightarrow>
   dict_keys d = unique (map header_name (filter is_header (file_lines text)))"
  by (auto simp: load_histology_dictionary_def unique_def dict_keys_def
      dest!: parse_lines_keys split: sum.splits)

lemma load_ok: "\<exists>d. load_histology_dictionary text = Inr d"
  using parse_lines_ok [OF state_ok_init, of "file_lines text"]
  by (auto simp: load_histology_dictionary_def)

lemma parse_lines_last_group:
  assumes h: "is_header h"
    and post: "\<forall>l \<in> set post. is_header l \<longrightarrow> header_name l \<noteq> header_name h"
    and run: "parse_lines st (h # post) = Inr st'"
  shows "dict_get (fst st') (header_name h) =
     Some (if header_name h = [] then []
           else tissue_lines (takeWhile (\<lambda>l. \<not> is_header l) post))"
proof -
  define g where "g = header_name h"
  define body where "body = takeWhile (\<lambda>l. \<not> is_header l) post"
  define rest where "rest = dropWhile (\<lambda>l. \<not> is_header l) post"
  define xs where "xs = (if g = [] then [] else tissue_lines body)"
  have split: "post = body @ rest" by (simp add: body_def rest_def)
  have body: "\<forall>l \<in> set body. \<not> is_header l"
    by (auto simp: body_def dest: set_takeWhileD)
  have grp: "parse_lines st (h # body) = Inr (dict_set (fst st) g xs, Some g)"
    using parse_lines_group [OF h body, of st] by (simp add: g_def xs_def)
  have "h # post = (h # body) @ rest" by (simp add: split)
  with run grp have rest: "parse_lines (dict_set (fst st) g xs, Some g) rest = Inr st'"
    by (simp only: parse_lines_append sum.case)
  show ?thesis
  proof (cases rest)
    case Nil
    with rest show ?thesis by (auto simp: dict_get_set g_def xs_def body_def)
  next
    case (Cons r rs)
    then have r: "is_header r"
      using hd_dropWhile [of "\<lambda>l. \<not> is_header l" post] by (simp add: rest_def)
    have "r \<in> set post" "set rs \<subseteq> set post" using Cons split by auto
    with post r have ne: "header_name r \<noteq> g"
      and rs: "\<forall>l \<in> set rs. \<not> (is_header l \<and> header_name l = g)"
      by (auto simp: g_def)
    obtain tg' cur' where st': "st' = (tg', cur')" by (cases st')
    from rest Cons r have
      "parse_lines (dict_set (dict_set (fst st) g xs) (header_name r) [], Some (header_name r)) rs
         = Inr (tg', cur')"
      by (simp add: parse_line_header st')
    from parse_lines_keeps [OF this _ rs] ne
    have "dict_get tg' g = Some xs" by (simp add: dict_get_set)
    then show ?thesis by (simp add: st' g_def xs_def body_def)
  qed
qed

text \<open>
  Claim C10. When the header of a group occurs again, its list starts again: the
  dictionary that the parser returns holds, for the last occurrence \<open>h\<close> of a
  header, the tissue lines between \<open>h\<close> and the next header (none when the name is
  empty), and the groups are in the order of the first occurrence of their
  headers.
\<close>

theorem repeated_header_resets_group:
  assumes "file_lines text = pre @ h # post"
    and "is_header h"
    and "\<forall>l \<in> set post. is_header l \<longrightarrow> header_name l \<noteq> header_name h"
  shows "\<exists>d. load_histology_dictionary text = Inr d \<and>
     dict_get d (header_name h) =
       Some (if header_name h = [] then []
             else tissue_lines (takeWhile (\<lambda>l. \<not> is_header l) post)) \<and>
     dict_keys d = unique (map header_name (filter is_header (file_lines text)))"
proof -
  from load_ok obtain d where d: "load_histology_dictionary text = Inr d" by blast
  then obtain cur where run: "parse_lines ([], None) (pre @ h # post) = Inr (d, cur)"
    by (auto simp: load_histology_dictionary_def assms(1) split: sum.splits)
  then obtain st1 where "parse_lines st1 (h # post) = Inr (d, cur)"
    by (auto simp only: parse_lines_append split: sum.splits)
  from parse_lines_last_group [OF assms(2,3) this] load_keys [OF d] d
  show ?thesis by simp
qed

text \<open>
  Claim C10, witness: the header \<open>#A\<close> occurs twice; group \<open>A\<close> keeps \<open>z\<close> only and
  stays before \<open>B\<close>.
\<close>

theorem repeated_header_resets_group_witness:
  "\<exists>d. load_histology_dictionary ''#A\<newline>x\<newline>#B\<newline>y\<newline>#A\<newline>z\<newline>'' = Inr d \<and>
     dict_get d ''A'' = Some [''z''] \<and> dict_keys d = [''A'', ''B'']"
proof -
  let ?text = "''#A\<newline>x\<newline>#B\<newline>y\<newline>#A\<newline>z\<newline>''"
  let ?pre = "[''#A\<newline>'', ''x\<newline>'', ''#B\<newline>'', ''y\<newline>'']"
  have 1: "file_lines ?text = ?pre @ ''#A\<newline>'' # [''z\<newline>'']" by code_simp
  have 2: "is_header ''#A\<newline>''" by code_simp
  have 3: "\<forall>l \<in> set [''z\<newline>'']. is_header l \<longrightarrow> header_name l \<noteq> header_name ''#A\<newline>''"
    by code_simp
  have 4: "header_name ''#A\<newline>'' = ''A''" by code_simp
  have 5: "tissue_lines (takeWhile (\<lambda>l. \<not> is_header l) [''z\<newline>'']) = [''z'']" by code_simp
  have 6: "unique (map header_name (filter is_header (file_lines ?text))) = [''A'', ''B'']"
    by code_simp
  from repeated_header_resets_group [OF 1 2 3] show ?thesis
    by (simp only: 4 5 6) simp
qed

lemma load_filter_blank:
  assumes "filter (\<lambda>l. strip l \<noteq> []) (file_lines text) =
      filter (\<lambda>l. strip l \<noteq> []) (file_lines text')"
  shows "load_histology_dictionary text = load_histology_dictionary text'"
proof -
  have "parse_lines ([], None) (file_lines text) = parse_lines ([], None) (file_lines text')"
    using parse_lines_filter_blank [of "([], None)" "file_lines text"]
      parse_lines_filter_blank [of "([], None)" "file_lines text'"] assms
    by simp
  then show ?thesis by (simp add: load_histology_dictionary_def)
qed

lemma load_drop_leading:
  assumes "file_lines text = pre @ file_lines text'" and "\<forall>l \<in> set pre. \<not> is_header l"
  shows "load_histology_dictionary text = load_histology_dictionary text'"
proof -
  have "parse_lines ([], None) (pre @ file_lines text') =
      parse_lines ([], None) (file_lines text')"
    by (simp only: parse_lines_append parse_lines_no_header [OF assms(2)] sum.case)
  then show ?thesis by (simp add: load_histology_dictionary_def assms(1))
qed

lemma load_last_group:
  assumes "file_lines text = pre @ h # post"
    and "is_header h"
    and "\<forall>l \<in> set post. is_header l \<longrightarrow> header_name l \<noteq> header_name h"
  shows "\<exists>d. load_histology_dictionary text = Inr d \<and>
     dict_get d (header_name h) =
       Some (if header_name h = [] then []
             else tissue_lines (takeWhile (\<lambda>l. \<not> is_header l) post))"
proof -
  from load_ok obtain d where d: "load_histology_dictionary text = Inr d" by blast
  then obtain cur where run: "parse_lines ([], None) (pre @ h # post) = Inr (d, cur)"
    by (auto simp: load_histology_dictionary_def assms(1) split: sum.splits)
  then obtain st1 where "parse_lines st1 (h # post) = Inr (d, cur)"
    by (auto simp only: parse_lines_append split: sum.splits)
  from parse_lines_last_group [OF assms(2,3) this] d
  show ?thesis by simp
qed

text \<open>
  Claim C4, as amended. For every text the parser returns a dictionary, without
  an error, whose groups are the names of the header lines in order of first
  occurrence; a text without a header gives the empty dictionary; blank lines are
  ignored (two texts with the same non-blank lines give the same dictionary);
  tissue lines before the first header are dropped; and the dictionary gives the
  group of a header whose name is not empty, at its last occurrence, exactly the
  non-blank lines that follow it up to the next header, trimmed, in order. The
  last conjunct says the same of the loop from any state.
\<close>

theorem parser_behaviour:
  "(\<exists>d. load_histology_dictionary text = Inr d \<and>
        dict_keys d = unique (map header_name (filter is_header (file_lines text)))) \<and>
   ((\<forall>l \<in> set (file_lines text). \<not> is_header l) \<longrightarrow>
      load_histology_dictionary text = Inr []) \<and>
   (filter (\<lambda>l. strip l \<noteq> []) (file_lines text) =
      filter (\<lambda>l. strip l \<noteq> []) (file_lines text') \<longrightarrow>
      load_histology_dictionary text = load_histology_dictionary text') \<and>
   (file_lines text = pre @ file_lines text' \<and> (\<forall>l \<in> set pre. \<not> is_header l) \<longrightarrow>
      load_histology_dictionary text = load_histology_dictionary text') \<and>
   (file_lines text = earlier @ h # post \<and> is_header h \<and> header_name h \<noteq> [] \<and>
    (\<forall>l \<in> set post. is_header l \<longrightarrow> header_name l \<noteq> header_name h) \<longrightarrow>
      (\<exists>d. load_histology_dictionary text = Inr d \<and>
           dict_get d (header_name h) =
             Some (tissue_lines (takeWhile (\<lambda>l. \<not> is_header l) post)))) \<and>
   (is_header h \<and> header_name h \<noteq> [] \<and> (\<forall>l \<in> set body. \<not> is_header l) \<longrightarrow>
      parse_lines st (h # body) =
        Inr (dict_set (fst st) (header_name h) (tissue_lines body), Some (header_name h)))"
proof (intro conjI impI)
  from load_ok obtain d where d: "load_histology_dictionary text = Inr d" by blast
  with load_keys [OF d]
  show "\<exists>d. load_histology_dictionary text = Inr d \<and>
        dict_keys d = unique (map header_name (filter is_header (file_lines text)))"
    by blast
next
  assume "\<forall>l \<in> set (file_lines text). \<not> is_header l"
  then show "load_histology_dictionary text = Inr []"
    by (simp add: load_histology_dictionary_def parse_lines_no_header)
next
  assume "filter (\<lambda>l. strip l \<noteq> []) (file_lines text) =
      filter (\<lambda>l. strip l \<noteq> []) (file_lines text')"
  then show "load_histology_dictionary text = load_histology_dictionary text'"
    by (rule load_filter_blank)
next
  assume "file_lines text = pre @ file_lines text' \<and> (\<forall>l \<in> set pre. \<not> is_header l)"
  then show "load_histology_dictionary text = load_histology_dictionary text'"
    using load_drop_leading by blast
next
  assume a: "file_lines text = earlier @ h # post \<and> is_header h \<and> header_name h \<noteq> [] \<and>
    (\<forall>l \<in> set post. is_header l \<longrightarrow> header_name l \<noteq> header_name h)"
  then have 1: "file_lines text = earlier @ h # post" and 2: "is_header h"
    and 3: "\<forall>l \<in> set post. is_header l \<longrightarrow> header_name l \<noteq> header_name h"
    by simp_all
  have "\<exists>d. load_histology_dictionary text = Inr d \<and>
     dict_get d (header_name h) =
       Some (if header_name h = [] then []
             else tissue_lines (takeWhile (\<lambda>l. \<not> is_header l) post))"
    by (rule load_last_group [OF 1 2 3])
  with a show "\<exists>d. load_histology_dictionary text = Inr d \<and>
           dict_get d (header_name h) =
             Some (tissue_lines (takeWhile (\<lambda>l. \<not> is_header l) post))"
    by simp
next
  assume "is_header h \<and> header_name h \<noteq> [] \<and> (\<forall>l \<in> set body. \<not> is_header l)"
  then show "parse_lines st (h # body) =
        Inr (dict_set (fst st) (header_name h) (tissue_lines body), Some (header_name h))"
    using parse_lines_group [of h body st] by simp
qed

text \<open>
  Claim C4, counterexample to the claim as stated: the header \<open>#\<close> opens the group
  with the empty name, and the tissue line that follows it is not assigned to that
  group.
\<close>

theorem empty_group_name_counterexample:
  "load_histology_dictionary ''#\<newline>liver\<newline>'' = Inr [([], [])]"
  by code_simp

lemma foldl_nested_entries:
  "foldl (\<lambda>acc (g, ts). foldl (f g) acc ts) acc0 tg =
   foldl (\<lambda>acc (g, t). f g acc t) acc0 (dictionary_entries tg)"
proof (induction tg arbitrary: acc0)
  case Nil
  then show ?case by (simp add: dictionary_entries_def)
next
  case (Cons p tg)
  obtain g ts where p: "p = (g, ts)" by (cases p)
  have inner: "foldl (\<lambda>acc (g, t). f g acc t) a (map (Pair g) ts) = foldl (f g) a ts" for a
    by (induction ts arbitrary: a) simp_all
  have "dictionary_entries (p # tg) = map (Pair g) ts @ dictionary_entries tg"
    by (simp add: dictionary_entries_def p)
  with Cons.IH show ?case by (simp add: p inner)
qed

lemma mapping_as_entries:
  "get_tissue_to_group_mapping tg data =
   foldl (\<lambda>m (g, t). assign_tissue (unique (map Tissue data)) g m t) []
     (dictionary_entries tg)"
  by (simp add: get_tissue_to_group_mapping_def Let_def foldl_nested_entries)

lemma assign_tissue_get:
  "dict_get (assign_tissue al g m t) k =
     (if first_match al t = Some k then Some g else dict_get m k)"
  by (auto simp: assign_tissue_def first_match_def dict_get_set split: list.splits)

lemma foldl_assign_other:
  "\<forall>e \<in> set es. first_match al (snd e) \<noteq> Some k \<Longrightarrow>
   dict_get (foldl (\<lambda>m (g, t). assign_tissue al g m t) m es) k = dict_get m k"
  by (induction es arbitrary: m) (auto simp: assign_tissue_get)

text \<open>
  Claim C2, as amended. An entry of the dictionary resolves to the first table
  tissue, in order of first appearance, that equals it up to letter case. When
  several entries resolve to the same table tissue \<open>k\<close>, the mapping gives \<open>k\<close>
  the group of the last of them in the iteration order of the dictionary.
\<close>

theorem last_matching_entry_wins:
  assumes "dictionary_entries tissue_groups = pre @ (g, t) # post"
    and "first_match (unique (map Tissue expression_data)) t = Some k"
    and "\<forall>e \<in> set post. first_match (unique (map Tissue expression_data)) (snd e) \<noteq> Some k"
  shows "dict_get (get_tissue_to_group_mapping tissue_groups expression_data) k = Some g"
  using assms by (simp add: mapping_as_entries foldl_assign_other assign_tissue_get)

lemma first_match_in: "first_match al t = Some k \<Longrightarrow> k \<in> set al"
proof -
  assume "first_match al t = Some k"
  then have "k \<in> set (matching_tissues al t)"
    by (auto simp: first_match_def split: list.splits)
  then show ?thesis by (simp add: matching_tissues_def)
qed

lemma place_tissue_first_match:
  "place_tissue al ordered t = ordered @ (case first_match al t of None \<Rightarrow> [] | Some k \<Rightarrow> [k])"
  by (simp add: place_tissue_def first_match_def split: list.splits)

lemma foldl_place_tissue:
  "foldl (\<lambda>ordered (g, t). place_tissue al ordered t) ordered es =
   ordered @ List.map_filter (\<lambda>e. first_match al (snd e)) es"
  by (induction es arbitrary: ordered)
    (auto simp: place_tissue_first_match map_filter_simps split: option.splits)

lemma set_map_filter: "set (List.map_filter f xs) = {y. \<exists>x \<in> set xs. f x = Some y}"
  by (induction xs) (auto simp: map_filter_simps split: option.splits)

lemma set_resolved_tissues: "set (resolved_tissues tg al) \<subseteq> set al"
  by (auto simp: resolved_tissues_def set_map_filter dest: first_match_in)

lemma dict_get_None_iff: "dict_get d k = None \<longleftrightarrow> k \<notin> set (dict_keys d)"
  by (simp add: dict_get_def dict_keys_def map_of_eq_None_iff)

lemma foldl_assign_get_None_aux:
  "dict_get (foldl (\<lambda>m (g, t). assign_tissue al g m t) m es) k = None \<longleftrightarrow>
   dict_get m k = None \<and> (\<forall>e \<in> set es. first_match al (snd e) \<noteq> Some k)"
proof (induction es arbitrary: m)
  case Nil
  then show ?case by simp
next
  case (Cons e es)
  obtain g t where e: "e = (g, t)" by (cases e)
  show ?case
    by (auto simp: e Cons.IH assign_tissue_get)
qed

lemma foldl_assign_get_None:
  "dict_get (foldl (\<lambda>m (g, t). assign_tissue al g m t) m es) k = None \<longleftrightarrow>
   dict_get m k = None \<and> k \<notin> set (List.map_filter (\<lambda>e. first_match al (snd e)) es)"
  by (simp add: foldl_assign_get_None_aux set_map_filter)

lemma mapping_keys:
  "set (dict_keys (get_tissue_to_group_mapping tg data)) =
   set (resolved_tissues tg (unique (map Tissue data)))"
proof -
  have "dict_get (get_tissue_to_group_mapping tg data) k = None \<longleftrightarrow>
        k \<notin> set (resolved_tissues tg (unique (map Tissue data)))" for k
    unfolding mapping_as_entries resolved_tissues_def foldl_assign_get_None
    by (simp add: dict_get_def)
  then show ?thesis unfolding dict_get_None_iff by blast
qed

lemma fst_foldl_place_other:
  "distinct ts \<Longrightarrow>
   fst (foldl place_other (ordered, m) ts) = ordered @ filter (\<lambda>t. t \<notin> set ordered) ts"
proof (induction ts arbitrary: ordered m)
  case Nil
  then show ?case by simp
next
  case (Cons t ts)
  show ?case
  proof (cases "t \<in> set ordered")
    case True
    with Cons show ?thesis by (simp add: place_other_def)
  next
    case False
    from Cons.prems have "filter (\<lambda>x. x \<noteq> t \<and> x \<notin> set ordered) ts =
        filter (\<lambda>x. x \<notin> set ordered) ts"
      by (intro filter_cong) auto
    with Cons False show ?thesis by (simp add: place_other_def Let_def)
  qed
qed

lemma snd_foldl_place_other:
  "dict_get (snd (foldl place_other (ordered, m) ts)) k =
     (if k \<in> set ts \<and> k \<notin> set ordered then Some ''Other'' else dict_get m k)"
proof (induction ts arbitrary: ordered m)
  case Nil
  then show ?case by simp
next
  case (Cons t ts)
  show ?case
  proof (cases "t \<in> set ordered")
    case True
    with Cons show ?thesis by (auto simp: place_other_def)
  next
    case False
    with Cons show ?thesis by (auto simp: place_other_def Let_def dict_get_set)
  qed
qed

lemma ordered_tissues_closed_form:
  "fst (get_ordered_tissues_by_group tg data) =
     resolved_tissues tg (unique (map Tissue data)) @
     filter (\<lambda>t. t \<notin> set (resolved_tissues tg (unique (map Tissue data))))
       (unique (map Tissue data))"
  by (simp add: get_ordered_tissues_by_group_def Let_def foldl_nested_entries
      foldl_place_tissue resolved_tissues_def fst_foldl_place_other distinct_unique)

lemma tissue_to_group_closed_form:
  "dict_get (snd (get_ordered_tissues_by_group tg data)) t =
     (if t \<in> set (unique (map Tissue data)) \<and>
         t \<notin> set (resolved_tissues tg (unique (map Tissue data)))
      then Some ''Other''
      else dict_get (get_tissue_to_group_mapping tg data) t)"
  by (simp add: get_ordered_tissues_by_group_def Let_def foldl_nested_entries
      foldl_place_tissue resolved_tissues_def snd_foldl_place_other)

lemma ordered_tissues_complete:
  "set (fst (get_ordered_tissues_by_group tg data)) = Tissue ` set data"
  using set_resolved_tissues [of tg "unique (map Tissue data)"]
  by (auto simp: ordered_tissues_closed_form set_unique)

lemma tissue_to_group_total:
  "dict_get (snd (get_ordered_tissues_by_group tg data)) t \<noteq> None \<longleftrightarrow> t \<in> Tissue ` set data"
proof -
  let ?al = "unique (map Tissue data)"
  have sub: "set (resolved_tissues tg ?al) \<subseteq> set ?al" by (rule set_resolved_tissues)
  have keys: "dict_get (get_tissue_to_group_mapping tg data) t \<noteq> None \<longleftrightarrow>
      t \<in> set (resolved_tissues tg ?al)"
    by (simp add: dict_get_None_iff mapping_keys)
  show ?thesis
  proof (cases "t \<in> set (resolved_tissues tg ?al)")
    case True
    with sub keys show ?thesis
      by (auto simp: tissue_to_group_closed_form set_unique)
  next
    case False
    with keys show ?thesis
      by (auto simp: tissue_to_group_closed_form set_unique)
  qed
qed

lemma unmatched_tissue_other:
  "t \<in> Tissue ` set data \<Longrightarrow> t \<notin> set (resolved_tissues tg (unique (map Tissue data))) \<Longrightarrow>
   dict_get (snd (get_ordered_tissues_by_group tg data)) t = Some ''Other''"
  by (simp add: tissue_to_group_closed_form set_unique)

lemma ordered_tissues_distinct:
  "distinct (fst (get_ordered_tissues_by_group tg data)) \<longleftrightarrow>
   distinct (resolved_tissues tg (unique (map Tissue data)))"
  by (auto simp: ordered_tissues_closed_form distinct_unique)

subsection \<open>The aggregator\<close>

lemma organ_group_default:
  "organ_group m r = (case dict_get m (Tissue r) of Some g \<Rightarrow> g | None \<Rightarrow> ''Other'')"
  by (simp add: organ_group_def dict_get_default_def)

lemma aggregated_keys:
  "map aggregated_key (aggregate_by_organ_group tg table data) =
   sort (remdups (map (group_key (get_tissue_to_group_mapping tg table)) data))"
  by (simp add: aggregate_by_organ_group_def Let_def aggregated_key_def comp_def)

lemma aggregated_value:
  assumes "r \<in> set (aggregate_by_organ_group tg table data)"
  shows "nTPM r = mean (map nTPM
     (filter (\<lambda>x. group_key (get_tissue_to_group_mapping tg table) x = aggregated_key r) data))"
  using assms by (auto simp: aggregate_by_organ_group_def Let_def aggregated_key_def)

lemma group_key_explicit:
  "group_key m x =
     (Gene x, Gene_name x, case dict_get m (Tissue x) of Some g \<Rightarrow> g | None \<Rightarrow> ''Other'')"
  by (simp add: group_key_def organ_group_default)

lemma group_key_eq_iff:
  "group_key m x = aggregated_key r \<longleftrightarrow>
   Gene x = Gene r \<and> Gene_name x = Gene_name r \<and>
   (case dict_get m (Tissue x) of Some g \<Rightarrow> g | None \<Rightarrow> ''Other'') = Tissue r"
  by (simp add: group_key_explicit aggregated_key_def)

lemma aggregated_group_nonempty:
  assumes "r \<in> set (aggregate_by_organ_group tg table data)"
  shows "filter (\<lambda>x. group_key (get_tissue_to_group_mapping tg table) x = aggregated_key r)
      data \<noteq> []"
proof -
  from assms have "aggregated_key r \<in>
      set (map aggregated_key (aggregate_by_organ_group tg table data))"
    by simp
  then have "aggregated_key r \<in> group_key (get_tissue_to_group_mapping tg table) ` set data"
    by (simp only: aggregated_keys set_sort set_remdups set_map)
  then show ?thesis by (auto simp: filter_empty_conv)
qed

text \<open>
  Claim C3. The organ group of an input row is the group that the mapping gives
  its tissue, and \<open>Other\<close> when the mapping gives none. The aggregated table has
  exactly one row for each key (gene id, gene name, organ group) of the input
  rows and no other row; every row of it stands for at least one input row, and
  its value is the sum of the values of the input rows with its key divided by
  their number; and two rows of one gene with the values 10 and 20, both of group
  \<open>Digestive\<close>, give the single row with the value 15.
\<close>

theorem aggregate_one_row_per_group:
  "distinct (map aggregated_key (aggregate_by_organ_group tg table data)) \<and>
   set (map aggregated_key (aggregate_by_organ_group tg table data)) =
     (\<lambda>x. (Gene x, Gene_name x,
            case dict_get (get_tissue_to_group_mapping tg table) (Tissue x) of
              Some g \<Rightarrow> g | None \<Rightarrow> ''Other'')) ` set data \<and>
   (\<forall>r \<in> set (aggregate_by_organ_group tg table data).
      (\<exists>x \<in> set data. Gene x = Gene r \<and> Gene_name x = Gene_name r \<and>
         (case dict_get (get_tissue_to_group_mapping tg table) (Tissue x) of
            Some g \<Rightarrow> g | None \<Rightarrow> ''Other'') = Tissue r) \<and>
      nTPM r =
        sum_list (map nTPM (filter (\<lambda>x. Gene x = Gene r \<and> Gene_name x = Gene_name r \<and>
            (case dict_get (get_tissue_to_group_mapping tg table) (Tissue x) of
               Some g \<Rightarrow> g | None \<Rightarrow> ''Other'') = Tissue r) data)) /
        real (length (filter (\<lambda>x. Gene x = Gene r \<and> Gene_name x = Gene_name r \<and>
            (case dict_get (get_tissue_to_group_mapping tg table) (Tissue x) of
               Some g \<Rightarrow> g | None \<Rightarrow> ''Other'') = Tissue r) data))) \<and>
   (data = [r1, r2] \<and> Gene r1 = Gene r2 \<and> Gene_name r1 = Gene_name r2 \<and>
    dict_get (get_tissue_to_group_mapping tg table) (Tissue r1) = Some ''Digestive'' \<and>
    dict_get (get_tissue_to_group_mapping tg table) (Tissue r2) = Some ''Digestive'' \<and>
    nTPM r1 = 10 \<and> nTPM r2 = 20 \<longrightarrow>
    aggregate_by_organ_group tg table data =
      [\<lparr>Gene = Gene r1, Gene_name = Gene_name r1, Tissue = ''Digestive'', nTPM = 15\<rparr>])"
proof (intro conjI ballI impI)
  let ?m = "get_tissue_to_group_mapping tg table"
  show "distinct (map aggregated_key (aggregate_by_organ_group tg table data))"
    by (simp add: aggregated_keys)
  have "set (map aggregated_key (aggregate_by_organ_group tg table data)) =
      group_key ?m ` set data"
    by (simp only: aggregated_keys set_sort set_remdups set_map)
  then show "set (map aggregated_key (aggregate_by_organ_group tg table data)) =
     (\<lambda>x. (Gene x, Gene_name x,
            case dict_get ?m (Tissue x) of Some g \<Rightarrow> g | None \<Rightarrow> ''Other'')) ` set data"
    by (auto simp: group_key_explicit)
  show "\<exists>x \<in> set data. Gene x = Gene r \<and> Gene_name x = Gene_name r \<and>
         (case dict_get ?m (Tissue x) of Some g \<Rightarrow> g | None \<Rightarrow> ''Other'') = Tissue r"
    if "r \<in> set (aggregate_by_organ_group tg table data)" for r
    using aggregated_group_nonempty [OF that]
    unfolding group_key_eq_iff filter_empty_conv by blast
  show "nTPM r =
        sum_list (map nTPM (filter (\<lambda>x. Gene x = Gene r \<and> Gene_name x = Gene_name r \<and>
            (case dict_get ?m (Tissue x) of Some g \<Rightarrow> g | None \<Rightarrow> ''Other'') = Tissue r)
          data)) /
        real (length (filter (\<lambda>x. Gene x = Gene r \<and> Gene_name x = Gene_name r \<and>
            (case dict_get ?m (Tissue x) of Some g \<Rightarrow> g | None \<Rightarrow> ''Other'') = Tissue r)
          data))"
    if "r \<in> set (aggregate_by_organ_group tg table data)" for r
    using aggregated_value [OF that]
    unfolding group_key_eq_iff mean_def by simp
  assume ex: "data = [r1, r2] \<and> Gene r1 = Gene r2 \<and> Gene_name r1 = Gene_name r2 \<and>
    dict_get ?m (Tissue r1) = Some ''Digestive'' \<and>
    dict_get ?m (Tissue r2) = Some ''Digestive'' \<and>
    nTPM r1 = 10 \<and> nTPM r2 = 20"
  let ?k = "(Gene r1, Gene_name r1, ''Digestive'')"
  from ex have data: "data = [r1, r2]" by simp
  from ex have k: "group_key ?m r1 = ?k" "group_key ?m r2 = ?k"
    by (simp_all add: group_key_explicit)
  have keys: "sort (remdups (map (group_key ?m) data)) = [?k]"
    by (simp add: data k)
  have rows: "filter (\<lambda>r. group_key ?m r = ?k) data = [r1, r2]"
    by (simp add: data k)
  from ex have "mean (map nTPM [r1, r2]) = 15" by (simp add: mean_def)
  then show "aggregate_by_organ_group tg table data =
      [\<lparr>Gene = Gene r1, Gene_name = Gene_name r1, Tissue = ''Digestive'', nTPM = 15\<rparr>]"
    unfolding aggregate_by_organ_group_def Let_def keys
    by (simp add: rows)
qed

text \<open>
  Claim C4, witness: a text with no header; a text with blank lines; a text with
  a tissue line before the first header; and a dictionary of two groups with a
  tissue line before the first header, a blank line and padded names.
\<close>

theorem parser_behaviour_witness:
  "load_histology_dictionary ''kidney\<newline>'' = Inr [] \<and>
   load_histology_dictionary ''#Liver\<newline>\<newline>liver\<newline>   \<newline>'' =
     load_histology_dictionary ''#Liver\<newline>liver\<newline>'' \<and>
   load_histology_dictionary ''cortex\<newline>#Liver\<newline>liver\<newline>'' =
     load_histology_dictionary ''#Liver\<newline>liver\<newline>'' \<and>
   (\<exists>d. load_histology_dictionary
          ''cortex\<newline>#Liver \<newline>liver\<newline>\<newline> hepatocytes\<newline>#Brain\<newline>cortex\<newline>'' = Inr d \<and>
        dict_keys d = [''Liver'', ''Brain''] \<and>
        dict_get d ''Liver'' = Some [''liver'', ''hepatocytes'']) \<and>
   parse_lines ([], None) [''#Liver \<newline>'', ''liver\<newline>'', ''\<newline>'', '' hepatocytes\<newline>''] =
     Inr ([(''Liver'', [''liver'', ''hepatocytes''])], Some ''Liver'')"
proof -
  let ?t = "''cortex\<newline>#Liver \<newline>liver\<newline>\<newline> hepatocytes\<newline>#Brain\<newline>cortex\<newline>''"
  let ?h = "''#Liver \<newline>''"
  let ?post = "[''liver\<newline>'', ''\<newline>'', '' hepatocytes\<newline>'', ''#Brain\<newline>'', ''cortex\<newline>'']"
  let ?body = "[''liver\<newline>'', ''\<newline>'', '' hepatocytes\<newline>'']"
  have 1: "\<forall>l \<in> set (file_lines ''kidney\<newline>''). \<not> is_header l" by code_simp
  have 2: "filter (\<lambda>l. strip l \<noteq> []) (file_lines ''#Liver\<newline>\<newline>liver\<newline>   \<newline>'') =
      filter (\<lambda>l. strip l \<noteq> []) (file_lines ''#Liver\<newline>liver\<newline>'')"
    by code_simp
  have 3: "file_lines ''cortex\<newline>#Liver\<newline>liver\<newline>'' =
      [''cortex\<newline>''] @ file_lines ''#Liver\<newline>liver\<newline>'' \<and>
      (\<forall>l \<in> set [''cortex\<newline>'']. \<not> is_header l)"
    by code_simp
  have 4: "file_lines ?t = [''cortex\<newline>''] @ ?h # ?post \<and> is_header ?h \<and> header_name ?h \<noteq> [] \<and>
      (\<forall>l \<in> set ?post. is_header l \<longrightarrow> header_name l \<noteq> header_name ?h)"
    by code_simp
  have 5: "is_header ?h \<and> header_name ?h \<noteq> [] \<and> (\<forall>l \<in> set ?body. \<not> is_header l)"
    by code_simp
  have n: "header_name ?h = ''Liver''" by code_simp
  have b: "tissue_lines ?body = [''liver'', ''hepatocytes'']" by code_simp
  have tw: "tissue_lines (takeWhile (\<lambda>l. \<not> is_header l) ?post) = [''liver'', ''hepatocytes'']"
    by code_simp
  have k: "unique (map header_name (filter is_header (file_lines ?t))) = [''Liver'', ''Brain'']"
    by code_simp
  have a1: "load_histology_dictionary ''kidney\<newline>'' = Inr []"
    using parser_behaviour [of "''kidney\<newline>''"] 1 by blast
  have a2: "load_histology_dictionary ''#Liver\<newline>\<newline>liver\<newline>   \<newline>'' =
     load_histology_dictionary ''#Liver\<newline>liver\<newline>''"
    using parser_behaviour [of "''#Liver\<newline>\<newline>liver\<newline>   \<newline>''" "''#Liver\<newline>liver\<newline>''"] 2
    by blast
  have a3: "load_histology_dictionary ''cortex\<newline>#Liver\<newline>liver\<newline>'' =
     load_histology_dictionary ''#Liver\<newline>liver\<newline>''"
    using parser_behaviour [of "''cortex\<newline>#Liver\<newline>liver\<newline>''" "''#Liver\<newline>liver\<newline>''"
        "[''cortex\<newline>'']"] 3
    by blast
  from parser_behaviour [of ?t _ _ "[''cortex\<newline>'']" ?h ?post] 4
  obtain d d' where d: "load_histology_dictionary ?t = Inr d"
      "dict_keys d = unique (map header_name (filter is_header (file_lines ?t)))"
    and d': "load_histology_dictionary ?t = Inr d'"
      "dict_get d' (header_name ?h) = Some (tissue_lines (takeWhile (\<lambda>l. \<not> is_header l) ?post))"
    by blast
  from d(1) d'(1) have same: "d' = d" by simp
  have keys: "dict_keys d = [''Liver'', ''Brain'']"
    using d(2) unfolding k .
  have liver: "dict_get d ''Liver'' = Some [''liver'', ''hepatocytes'']"
    using d'(2) unfolding same n tw .
  from d(1) keys liver have a4: "\<exists>d. load_histology_dictionary ?t = Inr d \<and>
        dict_keys d = [''Liver'', ''Brain''] \<and>
        dict_get d ''Liver'' = Some [''liver'', ''hepatocytes'']"
    by blast
  have a5: "parse_lines ([], None) (?h # ?body) =
      Inr ([(''Liver'', [''liver'', ''hepatocytes''])], Some ''Liver'')"
    using parser_behaviour [of _ _ _ _ ?h _ ?body "([], None)"] 5 by (simp add: n b)
  from a1 a2 a3 a4 a5 show ?thesis by blast
qed

text \<open>
  Claim C2, witness: \<open>liver\<close> of group \<open>Liver\<close> and \<open>LIVER\<close> of group \<open>Digestive\<close>
  both resolve to the table tissue \<open>Liver\<close>.
\<close>

theorem last_matching_entry_wins_witness:
  "dict_get (get_tissue_to_group_mapping
      [(''Liver'', [''liver'']), (''Digestive'', [''LIVER'', ''colon''])]
      [\<lparr>Gene = ''ENSG1'', Gene_name = ''ALB'', Tissue = ''Liver'', nTPM = 5\<rparr>,
       \<lparr>Gene = ''ENSG1'', Gene_name = ''ALB'', Tissue = ''colon'', nTPM = 1\<rparr>]) ''Liver'' =
   Some ''Digestive''"
proof -
  let ?tg = "[(''Liver'', [''liver'']), (''Digestive'', [''LIVER'', ''colon''])]"
  let ?data = "[\<lparr>Gene = ''ENSG1'', Gene_name = ''ALB'', Tissue = ''Liver'', nTPM = 5\<rparr>,
       \<lparr>Gene = ''ENSG1'', Gene_name = ''ALB'', Tissue = ''colon'', nTPM = 1\<rparr>]"
  have 1: "dictionary_entries ?tg =
      [(''Liver'', ''liver'')] @ (''Digestive'', ''LIVER'') # [(''Digestive'', ''colon'')]"
    by code_simp
  have 2: "first_match (unique (map Tissue ?data)) ''LIVER'' = Some ''Liver''" by code_simp
  have 3: "\<forall>e \<in> set [(''Digestive'', ''colon'')].
      first_match (unique (map Tissue ?data)) (snd e) \<noteq> Some ''Liver''"
    by code_simp
  from last_matching_entry_wins [OF 1 2 3] show ?thesis .
qed

text \<open>
  Claim C2, counterexample to the claim as stated: the earliest entry that matches
  the table tissue \<open>liver\<close> is in group \<open>A\<close>, and the mapping records \<open>B\<close>.
\<close>

theorem earliest_entry_counterexample:
  "load_histology_dictionary ''#A\<newline>liver\<newline>#B\<newline>Liver\<newline>'' =
     Inr [(''A'', [''liver'']), (''B'', [''Liver''])] \<and>
   dict_get (get_tissue_to_group_mapping [(''A'', [''liver'']), (''B'', [''Liver''])]
      [\<lparr>Gene = ''ENSG1'', Gene_name = ''ALB'', Tissue = ''liver'', nTPM = 1\<rparr>]) ''liver'' =
     Some ''B''"
  by code_simp

text \<open>
  Claim C3, witness: the example of the specification on a table of three rows.
\<close>

theorem aggregate_one_row_per_group_witness:
  "aggregate_by_organ_group [(''Digestive'', [''colon'', ''rectum''])]
     [\<lparr>Gene = ''ENSG1'', Gene_name = ''ALB'', Tissue = ''colon'', nTPM = 10\<rparr>,
      \<lparr>Gene = ''ENSG1'', Gene_name = ''ALB'', Tissue = ''rectum'', nTPM = 20\<rparr>,
      \<lparr>Gene = ''ENSG2'', Gene_name = ''INS'', Tissue = ''skin'', nTPM = 3\<rparr>]
     [\<lparr>Gene = ''ENSG1'', Gene_name = ''ALB'', Tissue = ''colon'', nTPM = 10\<rparr>,
      \<lparr>Gene = ''ENSG1'', Gene_name = ''ALB'', Tissue = ''rectum'', nTPM = 20\<rparr>] =
   [\<lparr>Gene = ''ENSG1'', Gene_name = ''ALB'', Tissue = ''Digestive'', nTPM = 15\<rparr>]"
proof -
  let ?tg = "[(''Digestive'', [''colon'', ''rectum''])]"
  let ?r1 = "\<lparr>Gene = ''ENSG1'', Gene_name = ''ALB'', Tissue = ''colon'', nTPM = 10\<rparr>"
  let ?r2 = "\<lparr>Gene = ''ENSG1'', Gene_name = ''ALB'', Tissue = ''rectum'', nTPM = 20\<rparr>"
  let ?table = "[?r1, ?r2, \<lparr>Gene = ''ENSG2'', Gene_name = ''INS'', Tissue = ''skin'', nTPM = 3\<rparr>]"
  have 1: "dict_get (get_tissue_to_group_mapping ?tg ?table) (Tissue ?r1) = Some ''Digestive''"
    by code_simp
  have 2: "dict_get (get_tissue_to_group_mapping ?tg ?table) (Tissue ?r2) = Some ''Digestive''"
    by code_simp
  from aggregate_one_row_per_group [of ?tg ?table "[?r1, ?r2]" ?r1 ?r2] 1 2
  show ?thesis by simp
qed

text \<open>
  Claim C1, the code at the failing input: the dictionary lists \<open>liver\<close> and
  \<open>Liver\<close>, both resolve to the table tissue \<open>liver\<close>, and the ordered list holds
  it twice.
\<close>

theorem ordered_tissues_duplicate:
  "load_histology_dictionary ''#Digestive\<newline>liver\<newline>Liver\<newline>'' =
     Inr [(''Digestive'', [''liver'', ''Liver''])] \<and>
   get_ordered_tissues_by_group [(''Digestive'', [''liver'', ''Liver''])]
     [\<lparr>Gene = ''ENSG1'', Gene_name = ''ALB'', Tissue = ''liver'', nTPM = 1\<rparr>] =
     ([''liver'', ''liver''], [(''liver'', ''Digestive'')])"
  by code_simp

lemma group_separators_Cons:
  "group_separators m cur i (t # cols) =
     (if Some (column_group m t) \<noteq> cur then [real i - 1 / 2] else []) @
     group_separators m (Some (column_group m t)) (Suc i) cols"
  by (simp add: column_group_def Let_def)

lemma group_separators_mem:
  "x \<in> set (group_separators m cur i cols) \<longleftrightarrow>
   (\<exists>j < length cols. x = real (i + j) - 1 / 2 \<and>
      Some (column_group m (cols ! j)) \<noteq>
        (if j = 0 then cur else Some (column_group m (cols ! (j - 1)))))"
proof (induction cols arbitrary: cur i)
  case Nil
  then show ?case by simp
next
  case (Cons t cols)
  have tail: "x \<in> set (group_separators m (Some (column_group m t)) (Suc i) cols) \<longleftrightarrow>
      (\<exists>j < length cols. x = real (i + Suc j) - 1 / 2 \<and>
         Some (column_group m ((t # cols) ! Suc j)) \<noteq>
           Some (column_group m ((t # cols) ! j)))"
  proof -
    have "(if j = 0 then Some (column_group m t) else Some (column_group m (cols ! (j - 1)))) =
        Some (column_group m ((t # cols) ! j))" for j
      by (cases j) simp_all
    then show ?thesis by (simp add: Cons.IH)
  qed
  show ?case
    unfolding group_separators_Cons set_append tail Un_iff length_Cons Ex_less_Suc2
    by auto
qed

lemma group_separators_lower:
  "x \<in> set (group_separators m cur i cols) \<Longrightarrow> real i - 1 / 2 \<le> x"
  by (auto simp: group_separators_mem)

lemma group_separators_distinct: "distinct (group_separators m cur i cols)"
proof (induction cols arbitrary: cur i)
  case Nil
  then show ?case by simp
next
  case (Cons t cols)
  have "real i - 1 / 2 \<notin> set (group_separators m (Some (column_group m t)) (Suc i) cols)"
    using group_separators_lower [of "real i - 1 / 2" m "Some (column_group m t)" "Suc i" cols]
    by auto
  with Cons.IH show ?case unfolding group_separators_Cons by simp
qed

lemma create_heatmap_figure:
  assumes "snd (create_heatmap st data ordered m sg lg) = Inr (HeatmapFigure hm lay)"
  shows "hm_x hm = filter (\<lambda>t. t \<in> Tissue ` set (rows (frames st data))) ordered"
    and "hm_vlines hm = (if sg then group_separators m None 0 (hm_x hm) else [])"
  using assms by (auto simp: create_heatmap_def Let_def split: if_splits)

text \<open>
  Claim C7, as amended. In a heatmap built over individual tissues
  (\<open>show_groups\<close>), the displayed columns are the ordered tissues that occur in
  the rows; for every pair of consecutive displayed columns there is a separator
  line between them exactly when their organ groups (from the mapping, \<open>Other\<close> by
  default) differ; every line lies at the left edge of a displayed column; and no
  position has two lines.
\<close>

theorem heatmap_group_separators:
  assumes "snd (create_heatmap st data ordered_tissues tissue_to_group True log_scale) =
      Inr (HeatmapFigure hm lay)"
  shows "hm_x hm = filter (\<lambda>t. t \<in> Tissue ` set (rows (frames st data))) ordered_tissues \<and>
    (\<forall>i. 0 < i \<and> i < length (hm_x hm) \<longrightarrow>
       (real i - 1 / 2 \<in> set (hm_vlines hm) \<longleftrightarrow>
        column_group tissue_to_group (hm_x hm ! i) \<noteq>
          column_group tissue_to_group (hm_x hm ! (i - 1)))) \<and>
    (\<forall>x \<in> set (hm_vlines hm). \<exists>i < length (hm_x hm). x = real i - 1 / 2) \<and>
    distinct (hm_vlines hm)"
proof -
  note fig = create_heatmap_figure [OF assms]
  have v: "hm_vlines hm = group_separators tissue_to_group None 0 (hm_x hm)"
    using fig(2) by simp
  have "real i - 1 / 2 \<in> set (hm_vlines hm) \<longleftrightarrow>
        column_group tissue_to_group (hm_x hm ! i) \<noteq>
          column_group tissue_to_group (hm_x hm ! (i - 1))"
    if "0 < i" "i < length (hm_x hm)" for i
    using that unfolding v group_separators_mem by auto
  moreover have "\<exists>i < length (hm_x hm). x = real i - 1 / 2" if "x \<in> set (hm_vlines hm)" for x
    using that unfolding v group_separators_mem by auto
  ultimately show ?thesis
    using fig(1) by (simp add: v group_separators_distinct)
qed

subsection \<open>The chart builders\<close>

lemma store_preserved_refl: "store_preserved st st"
  by (simp add: store_preserved_def)

lemma store_preserved_new_frame: "store_preserved st (snd (new_frame st f))"
  by (simp add: store_preserved_def new_frame_def)

lemma create_heatmap_store: "fst (create_heatmap st data ordered m sg lg) = st"
  by (simp add: create_heatmap_def Let_def)

lemma create_bar_chart_store:
  "store_preserved st (fst (create_bar_chart sv st data ordered m lg))"
  by (simp add: create_bar_chart_def copy_frame_def new_frame_def set_tissue_categorical_def
      store_preserved_def Let_def)

lemma create_box_plot_store:
  "store_preserved st (fst (create_box_plot sv st data ordered m lg))"
  by (simp add: create_box_plot_def copy_frame_def new_frame_def set_tissue_categorical_def
      store_preserved_def Let_def)

lemma create_heatmap_result:
  assumes "rows (frames st1 d1) = rows (frames st2 d2)"
  shows "snd (create_heatmap st1 d1 ordered m sg lg) = snd (create_heatmap st2 d2 ordered m sg lg)"
  unfolding create_heatmap_def Let_def assms if_distrib [of snd] snd_conv ..

lemma create_bar_chart_result:
  "frames st1 d1 = frames st2 d2 \<Longrightarrow>
   snd (create_bar_chart sv st1 d1 ordered m lg) = snd (create_bar_chart sv st2 d2 ordered m lg)"
  by (simp add: create_bar_chart_def copy_frame_def new_frame_def set_tissue_categorical_def
      Let_def)

lemma create_box_plot_result:
  "frames st1 d1 = frames st2 d2 \<Longrightarrow>
   snd (create_box_plot sv st1 d1 ordered m lg) = snd (create_box_plot sv st2 d2 ordered m lg)"
  by (simp add: create_box_plot_def copy_frame_def new_frame_def set_tissue_categorical_def
      Let_def)

text \<open>
  Claim C9. Each of the three chart builders leaves every object of the store it
  was called in as it was (its input frame and the loaded expression table among
  them) and leaves the fields of \<^verbatim>\<open>data_loader\<close> as they were; and what it
  returns is determined by the content of its input frame and its other
  arguments: two calls on frames of equal content, in whatever stores, return
  the same chart description or raise the same error.
\<close>

theorem chart_builders_pure:
  "store_preserved st (fst (create_heatmap st data ordered_tissues tissue_to_group sg lg)) \<and>
   store_preserved st
     (fst (create_bar_chart sort_values st data ordered_tissues tissue_to_group lg)) \<and>
   store_preserved st
     (fst (create_box_plot sort_values st data ordered_tissues tissue_to_group lg)) \<and>
   (frames st1 d1 = frames st2 d2 \<longrightarrow>
      snd (create_heatmap st1 d1 ordered_tissues tissue_to_group sg lg) =
        snd (create_heatmap st2 d2 ordered_tissues tissue_to_group sg lg) \<and>
      snd (create_bar_chart sort_values st1 d1 ordered_tissues tissue_to_group lg) =
        snd (create_bar_chart sort_values st2 d2 ordered_tissues tissue_to_group lg) \<and>
      snd (create_box_plot sort_values st1 d1 ordered_tissues tissue_to_group lg) =
        snd (create_box_plot sort_values st2 d2 ordered_tissues tissue_to_group lg))"
proof (intro conjI impI)
  show "store_preserved st (fst (create_heatmap st data ordered_tissues tissue_to_group sg lg))"
    by (simp add: create_heatmap_store store_preserved_refl)
  show "store_preserved st
     (fst (create_bar_chart sort_values st data ordered_tissues tissue_to_group lg))"
    by (rule create_bar_chart_store)
  show "store_preserved st
     (fst (create_box_plot sort_values st data ordered_tissues tissue_to_group lg))"
    by (rule create_box_plot_store)
next
  assume eq: "frames st1 d1 = frames st2 d2"
  then have "rows (frames st1 d1) = rows (frames st2 d2)" by simp
  then show "snd (create_heatmap st1 d1 ordered_tissues tissue_to_group sg lg) =
        snd (create_heatmap st2 d2 ordered_tissues tissue_to_group sg lg)"
    by (rule create_heatmap_result)
  from eq show "snd (create_bar_chart sort_values st1 d1 ordered_tissues tissue_to_group lg) =
        snd (create_bar_chart sort_values st2 d2 ordered_tissues tissue_to_group lg)"
    by (rule create_bar_chart_result)
  from eq show "snd (create_box_plot sort_values st1 d1 ordered_tissues tissue_to_group lg) =
        snd (create_box_plot sort_values st2 d2 ordered_tissues tissue_to_group lg)"
    by (rule create_box_plot_result)
qed

text \<open>
  Claim C9, witness: after a bar chart and a box plot have been built from the
  frame at address 0, that frame is what it was; and the bar chart of a frame of
  equal content at another address of another store is the same.
\<close>

theorem chart_builders_pure_witness:
  "frames (fst (create_bar_chart stable_sort_values
       (initial_store [\<lparr>Gene = ''ENSG1'', Gene_name = ''ALB'', Tissue = ''liver'', nTPM = 5\<rparr>] [])
       0 [''liver''] [(''liver'', ''Liver'')] False)) 0 =
     \<lparr>rows = [\<lparr>Gene = ''ENSG1'', Gene_name = ''ALB'', Tissue = ''liver'', nTPM = 5\<rparr>],
      tissue_categories = None\<rparr> \<and>
   frames (fst (create_box_plot stable_sort_values
       (initial_store [\<lparr>Gene = ''ENSG1'', Gene_name = ''ALB'', Tissue = ''liver'', nTPM = 5\<rparr>] [])
       0 [''liver''] [(''liver'', ''Liver'')] False)) 0 =
     \<lparr>rows = [\<lparr>Gene = ''ENSG1'', Gene_name = ''ALB'', Tissue = ''liver'', nTPM = 5\<rparr>],
      tissue_categories = None\<rparr> \<and>
   snd (create_bar_chart stable_sort_values
       (initial_store [\<lparr>Gene = ''ENSG1'', Gene_name = ''ALB'', Tissue = ''liver'', nTPM = 5\<rparr>] [])
       0 [''liver''] [(''liver'', ''Liver'')] False) =
   snd (create_bar_chart stable_sort_values
       (initial_store [\<lparr>Gene = ''ENSG1'', Gene_name = ''ALB'', Tissue = ''liver'', nTPM = 5\<rparr>]
          [(''Liver'', [''liver''])])
       7 [''liver''] [(''liver'', ''Liver'')] False)"
proof -
  let ?table = "[\<lparr>Gene = ''ENSG1'', Gene_name = ''ALB'', Tissue = ''liver'', nTPM = 5\<rparr>]"
  let ?st = "initial_store ?table []"
  let ?st' = "initial_store ?table [(''Liver'', [''liver''])]"
  have live: "0 < next_addr ?st" by (simp add: initial_store_def)
  have f0: "frames ?st 0 = \<lparr>rows = ?table, tissue_categories = None\<rparr>"
    by (simp add: initial_store_def)
  have same: "frames ?st 0 = frames ?st' 7" by (simp add: initial_store_def)
  note pure = chart_builders_pure [of ?st 0 "[''liver'']" "[(''liver'', ''Liver'')]" _ False
      stable_sort_values ?st 0 ?st' 7]
  from pure live have
    "frames (fst (create_bar_chart stable_sort_values ?st 0 [''liver''] [(''liver'', ''Liver'')]
        False)) 0 = frames ?st 0"
    "frames (fst (create_box_plot stable_sort_values ?st 0 [''liver''] [(''liver'', ''Liver'')]
        False)) 0 = frames ?st 0"
    unfolding store_preserved_def by blast+
  moreover from pure same have
    "snd (create_bar_chart stable_sort_values ?st 0 [''liver''] [(''liver'', ''Liver'')] False) =
     snd (create_bar_chart stable_sort_values ?st' 7 [''liver''] [(''liver'', ''Liver'')] False)"
    by blast
  ultimately show ?thesis by (simp only: f0) 
qed

text \<open>
  Claim C7, counterexample to the claim as stated: a heatmap with a single column
  has no pair of consecutive columns, and it has a line, at the left edge of that
  column.
\<close>

theorem heatmap_leading_separator_counterexample:
  "snd (create_heatmap
      (initial_store [\<lparr>Gene = ''ENSG1'', Gene_name = ''ALB'', Tissue = ''liver'', nTPM = 5\<rparr>] [])
      0 [''liver''] [(''liver'', ''Liver'')] True False) =
   Inr (HeatmapFigure
     \<lparr>hm_z = [[Some 5]], hm_x = [''liver''], hm_y = [''ALB''],
      hm_customdata = [[HoverLinear ''ALB'' (Some ''liver'') ''Liver'' 5]],
      hm_vlines = [- 1 / 2]\<rparr>
     \<lparr>title_text = ''Gene Expression Heatmap'', value_title = ''nTPM'',
      fig_height = 600, fig_width = 800\<rparr>)"
  by code_simp

text \<open>
  Claim C7, witness: the columns \<open>liver\<close> (Liver), \<open>cortex\<close> and \<open>cerebellum\<close>
  (both Brain): a line between the first two, none between the last two.
\<close>

theorem heatmap_group_separators_witness:
  "snd (create_heatmap
      (initial_store
         [\<lparr>Gene = ''ENSG1'', Gene_name = ''ALB'', Tissue = ''cortex'', nTPM = 1\<rparr>,
          \<lparr>Gene = ''ENSG1'', Gene_name = ''ALB'', Tissue = ''liver'', nTPM = 5\<rparr>,
          \<lparr>Gene = ''ENSG1'', Gene_name = ''ALB'', Tissue = ''cerebellum'', nTPM = 2\<rparr>] [])
      0 [''liver'', ''cortex'', ''cerebellum'', ''skin'']
      [(''liver'', ''Liver''), (''cortex'', ''Brain''), (''cerebellum'', ''Brain'')] True False) =
   Inr (HeatmapFigure
     \<lparr>hm_z = [[Some 5, Some 1, Some 2]], hm_x = [''liver'', ''cortex'', ''cerebellum''],
      hm_y = [''ALB''],
      hm_customdata =
        [[HoverLinear ''ALB'' (Some ''liver'') ''Liver'' 5,
          HoverLinear ''ALB'' (Some ''cortex'') ''Brain'' 1,
          HoverLinear ''ALB'' (Some ''cerebellum'') ''Brain'' 2]],
      hm_vlines = [- 1 / 2, 1 / 2]\<rparr>
     \<lparr>title_text = ''Gene Expression Heatmap'', value_title = ''nTPM'',
      fig_height = 600, fig_width = 800\<rparr>) \<and>
   (1 / 2 \<in> set [- 1 / 2, 1 / 2 :: real]) \<and> (3 / 2 \<notin> set [- 1 / 2, 1 / 2 :: real])"
proof -
  let ?m = "[(''liver'', ''Liver''), (''cortex'', ''Brain''), (''cerebellum'', ''Brain'')]"
  let ?hm = "\<lparr>hm_z = [[Some 5, Some 1, Some 2]], hm_x = [''liver'', ''cortex'', ''cerebellum''],
      hm_y = [''ALB''],
      hm_customdata =
        [[HoverLinear ''ALB'' (Some ''liver'') ''Liver'' 5,
          HoverLinear ''ALB'' (Some ''cortex'') ''Brain'' 1,
          HoverLinear ''ALB'' (Some ''cerebellum'') ''Brain'' 2]],
      hm_vlines = [- 1 / 2, 1 / 2]\<rparr>"
  have fig: "snd (create_heatmap
      (initial_store
         [\<lparr>Gene = ''ENSG1'', Gene_name = ''ALB'', Tissue = ''cortex'', nTPM = 1\<rparr>,
          \<lparr>Gene = ''ENSG1'', Gene_name = ''ALB'', Tissue = ''liver'', nTPM = 5\<rparr>,
          \<lparr>Gene = ''ENSG1'', Gene_name = ''ALB'', Tissue = ''cerebellum'', nTPM = 2\<rparr>] [])
      0 [''liver'', ''cortex'', ''cerebellum'', ''skin''] ?m True False) =
   Inr (HeatmapFigure ?hm
     \<lparr>title_text = ''Gene Expression Heatmap'', value_title = ''nTPM'',
      fig_height = 600, fig_width = 800\<rparr>)"
    by code_simp
  have g1: "column_group ?m ''cortex'' \<noteq> column_group ?m ''liver''" by code_simp
  have g2: "column_group ?m ''cerebellum'' = column_group ?m ''cortex''" by code_simp
  from heatmap_group_separators [OF fig]
  have sep: "\<forall>i. 0 < i \<and> i < length (hm_x ?hm) \<longrightarrow>
       (real i - 1 / 2 \<in> set (hm_vlines ?hm) \<longleftrightarrow>
        column_group ?m (hm_x ?hm ! i) \<noteq> column_group ?m (hm_x ?hm ! (i - 1)))"
    by blast
  from sep [rule_format, of 1] g1 have "1 / 2 \<in> set [- 1 / 2, 1 / 2 :: real]" by simp
  moreover from sep [rule_format, of 2] g2 have "3 / 2 \<notin> set [- 1 / 2, 1 / 2 :: real]"
    by simp
  ultimately show ?thesis using fig by blast
qed

subsection \<open>The callback\<close>

lemma graph_of_cases:
  "(\<exists>fig. snd (graph_of r) = Inr (Graph fig)) \<or> (\<exists>e. snd (graph_of r) = Inl e)"
  by (cases "snd r") (simp_all add: graph_of_def)

lemma build_visualization_no_data:
  "get_expression_for_genes (rows (frames st (loader_expression_data st))) genes = [] \<Longrightarrow>
   snd (build_visualization sv st genes g v l) = Inr no_data_alert"
  unfolding build_visualization_def Let_def split_beta new_frame_def
  by simp

lemma build_visualization_invalid:
  assumes "get_expression_for_genes (rows (frames st (loader_expression_data st))) genes \<noteq> []"
    and "v \<noteq> ''heatmap''" "v \<noteq> ''bar''" "v \<noteq> ''box''"
  shows "snd (build_visualization sv st genes g v l) = Inr invalid_type_alert"
  unfolding build_visualization_def Let_def split_beta new_frame_def
  using assms by simp

lemma build_visualization_chart:
  assumes "get_expression_for_genes (rows (frames st (loader_expression_data st))) genes \<noteq> []"
    and "v = ''heatmap'' \<or> v = ''bar'' \<or> v = ''box''"
  shows "(\<exists>fig. snd (build_visualization sv st genes g v l) = Inr (Graph fig)) \<or>
         (\<exists>e. snd (build_visualization sv st genes g v l) = Inl e)"
proof -
  consider "v = ''heatmap''" | "v = ''bar''" | "v = ''box''" using assms(2) by blast
  then show ?thesis
  proof cases
    case 1
    show ?thesis
      unfolding build_visualization_def Let_def split_beta new_frame_def
      using assms(1) by (simp add: 1 graph_of_cases)
  next
    case 2
    show ?thesis
      unfolding build_visualization_def Let_def split_beta new_frame_def
      using assms(1) by (simp add: 2 graph_of_cases)
  next
    case 3
    show ?thesis
      unfolding build_visualization_def Let_def split_beta new_frame_def
      using assms(1) by (simp add: 3 graph_of_cases)
  qed
qed

lemma alerts_differ:
  "no_data_alert \<noteq> too_many_genes_alert" "invalid_type_alert \<noteq> too_many_genes_alert"
  "Graph fig \<noteq> too_many_genes_alert"
  by (simp_all add: no_data_alert_def too_many_genes_alert_def invalid_type_alert_def)

lemma build_visualization_not_too_many:
  "snd (build_visualization sv st genes g v l) \<noteq> Inr too_many_genes_alert"
proof (cases "get_expression_for_genes (rows (frames st (loader_expression_data st))) genes = []")
  case True
  then show ?thesis
    by (simp add: build_visualization_no_data alerts_differ)
next
  case False
  show ?thesis
  proof (cases "v = ''heatmap'' \<or> v = ''bar'' \<or> v = ''box''")
    case True
    from build_visualization_chart [OF False True, of sv g l] show ?thesis
    proof
      assume "\<exists>fig. snd (build_visualization sv st genes g v l) = Inr (Graph fig)"
      then show ?thesis using alerts_differ(3) by (metis sum.inject(2))
    next
      assume "\<exists>e. snd (build_visualization sv st genes g v l) = Inl e"
      then show ?thesis by auto
    qed
  next
    case v: False
    then have "v \<noteq> ''heatmap''" "v \<noteq> ''bar''" "v \<noteq> ''box''" by blast+
    from build_visualization_invalid [OF False this] show ?thesis
      by (simp add: alerts_differ)
  qed
qed

lemma update_visualization_too_many:
  "10 < length genes \<Longrightarrow>
   update_visualization sv st (Some genes) g v l = (st, Inr too_many_genes_alert)"
  unfolding update_visualization_def by (cases genes) simp_all

lemma update_visualization_accepts:
  "genes \<noteq> [] \<Longrightarrow> length genes \<le> 10 \<Longrightarrow>
   update_visualization sv st (Some genes) g v l = build_visualization sv st genes g v l"
  unfolding update_visualization_def by simp

lemma graph_of_heatmap_ok:
  assumes "distinct (map (\<lambda>r. (Gene_name r, Tissue r)) (rows (frames s d)))"
    and "distinct ordered"
  shows "\<exists>hm lay. snd (graph_of (create_heatmap s d ordered m sg lg)) =
      Inr (Graph (HeatmapFigure hm lay))"
  using assms by (simp add: create_heatmap_def graph_of_def Let_def)

lemma graph_of_bar_ok:
  assumes "distinct ordered"
  shows "\<exists>ts lay. snd (graph_of (create_bar_chart sv s d ordered m lg)) =
      Inr (Graph (BarFigure ts lay))"
  using assms
  by (simp add: create_bar_chart_def graph_of_def copy_frame_def new_frame_def
      set_tissue_categorical_def Let_def)

lemma graph_of_box_ok:
  assumes "distinct ordered"
  shows "\<exists>ts lay. snd (graph_of (create_box_plot sv s d ordered m lg)) =
      Inr (Graph (BoxFigure ts lay))"
  using assms
  by (simp add: create_box_plot_def graph_of_def copy_frame_def new_frame_def
      set_tissue_categorical_def Let_def)

lemma pairs_log_transform:
  "map (\<lambda>r. (Gene_name r, Tissue r)) (map log_transform D) =
   map (\<lambda>r. (Gene_name r, Tissue r)) D"
  by (simp add: log_transform_def comp_def)

lemma build_visualization_bar_ok:
  fixes st :: store
  defines "table \<equiv> rows (frames st (loader_expression_data st))"
  defines "tg \<equiv> loader_tissue_groups st"
  assumes found: "get_expression_for_genes table genes \<noteq> []"
    and ord: "distinct (chart_order tg table genes g)"
  shows "\<exists>ts lay. snd (build_visualization sv st genes g ''bar'' l) =
      Inr (Graph (BarFigure ts lay))"
proof (cases "g = ''organ''")
  case True
  from ord have o: "distinct (sort (unique (map Tissue
      (aggregate_by_organ_group tg table (get_expression_for_genes table genes)))))"
    by (simp add: chart_order_def chart_rows_def True)
  show ?thesis
    unfolding build_visualization_def Let_def split_beta new_frame_def copy_frame_def
    using found o
    by (simp add: True table_def tg_def graph_of_bar_ok)
next
  case False
  from ord have o: "distinct (fst (get_ordered_tissues_by_group tg table))"
    by (simp add: chart_order_def False)
  show ?thesis
    unfolding build_visualization_def Let_def split_beta new_frame_def copy_frame_def
    using found o
    by (simp add: False table_def tg_def graph_of_bar_ok)
qed

lemma build_visualization_box_ok:
  fixes st :: store
  defines "table \<equiv> rows (frames st (loader_expression_data st))"
  defines "tg \<equiv> loader_tissue_groups st"
  assumes found: "get_expression_for_genes table genes \<noteq> []"
    and ord: "distinct (chart_order tg table genes g)"
  shows "\<exists>ts lay. snd (build_visualization sv st genes g ''box'' l) =
      Inr (Graph (BoxFigure ts lay))"
proof (cases "g = ''organ''")
  case True
  from ord have o: "distinct (sort (unique (map Tissue
      (aggregate_by_organ_group tg table (get_expression_for_genes table genes)))))"
    by (simp add: chart_order_def chart_rows_def True)
  show ?thesis
    unfolding build_visualization_def Let_def split_beta new_frame_def copy_frame_def
    using found o
    by (simp add: True table_def tg_def graph_of_box_ok)
next
  case False
  from ord have o: "distinct (fst (get_ordered_tissues_by_group tg table))"
    by (simp add: chart_order_def False)
  show ?thesis
    unfolding build_visualization_def Let_def split_beta new_frame_def copy_frame_def
    using found o
    by (simp add: False table_def tg_def graph_of_box_ok)
qed

lemma build_visualization_heatmap_ok:
  fixes st :: store
  defines "table \<equiv> rows (frames st (loader_expression_data st))"
  defines "tg \<equiv> loader_tissue_groups st"
  assumes found: "get_expression_for_genes table genes \<noteq> []"
    and ord: "distinct (chart_order tg table genes g)"
    and pairs: "distinct (map (\<lambda>r. (Gene_name r, Tissue r)) (chart_rows tg table genes g))"
  shows "\<exists>hm lay. snd (build_visualization sv st genes g ''heatmap'' l) =
      Inr (Graph (HeatmapFigure hm lay))"
proof (cases "g = ''organ''")
  case True
  from ord have o: "distinct (sort (unique (map Tissue
      (aggregate_by_organ_group tg table (get_expression_for_genes table genes)))))"
    by (simp add: chart_order_def chart_rows_def True)
  from pairs have p: "distinct (map (\<lambda>r. (Gene_name r, Tissue r))
      (aggregate_by_organ_group tg table (get_expression_for_genes table genes)))"
    by (simp add: chart_rows_def True)
  show ?thesis
  proof (cases "l = ''log''")
    case log: True
    show ?thesis
      unfolding build_visualization_def Let_def split_beta new_frame_def copy_frame_def
      using found o p
      by (simp add: True log table_def tg_def graph_of_heatmap_ok log_transform_def comp_def)
  next
    case lin: False
    show ?thesis
      unfolding build_visualization_def Let_def split_beta new_frame_def copy_frame_def
      using found o p
      by (simp add: True lin table_def tg_def graph_of_heatmap_ok)
  qed
next
  case False
  from ord have o: "distinct (fst (get_ordered_tissues_by_group tg table))"
    by (simp add: chart_order_def False)
  from pairs have p: "distinct (map (\<lambda>r. (Gene_name r, Tissue r))
      (get_expression_for_genes table genes))"
    by (simp add: chart_rows_def False)
  show ?thesis
  proof (cases "l = ''log''")
    case log: True
    show ?thesis
      unfolding build_visualization_def Let_def split_beta new_frame_def copy_frame_def
      using found o p
      by (simp add: False log table_def tg_def graph_of_heatmap_ok log_transform_def comp_def)
  next
    case lin: False
    show ?thesis
      unfolding build_visualization_def Let_def split_beta new_frame_def copy_frame_def
      using found o p
      by (simp add: False lin table_def tg_def graph_of_heatmap_ok)
  qed
qed

text \<open>
  Claim C5, as amended. A selection of more than 10 genes is answered with the
  warning and nothing else happens: the store is the one of the call, so no chart
  was built and no shorter selection was tried. A selection of exactly 10 genes
  is never answered with that warning. With no row for the selected genes the
  answer is the warning that no data was found; with rows and an unknown chart
  type it is the alert for the type. With rows it is the graph of a heatmap, of a
  bar chart or of a box plot, as the type asks, when the tissue order passed to
  the builder has no duplicate and, for the heatmap, no pair (gene name, tissue)
  occurs twice in the rows to draw.
\<close>

theorem selection_size_gate:
  "(10 < length genes \<longrightarrow>
      update_visualization sv st (Some genes) g v l = (st, Inr too_many_genes_alert)) \<and>
   (length genes = 10 \<longrightarrow>
      snd (update_visualization sv st (Some genes) g v l) \<noteq> Inr too_many_genes_alert \<and>
      (get_expression_for_genes (rows (frames st (loader_expression_data st))) genes = [] \<longrightarrow>
         snd (update_visualization sv st (Some genes) g v l) = Inr no_data_alert) \<and>
      (get_expression_for_genes (rows (frames st (loader_expression_data st))) genes \<noteq> [] \<longrightarrow>
         (v \<noteq> ''heatmap'' \<and> v \<noteq> ''bar'' \<and> v \<noteq> ''box'' \<longrightarrow>
            snd (update_visualization sv st (Some genes) g v l) = Inr invalid_type_alert) \<and>
         (distinct (chart_order (loader_tissue_groups st)
              (rows (frames st (loader_expression_data st))) genes g) \<longrightarrow>
            (v = ''heatmap'' \<and>
             distinct (map (\<lambda>r. (Gene_name r, Tissue r))
               (chart_rows (loader_tissue_groups st)
                  (rows (frames st (loader_expression_data st))) genes g)) \<longrightarrow>
               (\<exists>hm lay. snd (update_visualization sv st (Some genes) g v l) =
                  Inr (Graph (HeatmapFigure hm lay)))) \<and>
            (v = ''bar'' \<longrightarrow>
               (\<exists>ts lay. snd (update_visualization sv st (Some genes) g v l) =
                  Inr (Graph (BarFigure ts lay)))) \<and>
            (v = ''box'' \<longrightarrow>
               (\<exists>ts lay. snd (update_visualization sv st (Some genes) g v l) =
                  Inr (Graph (BoxFigure ts lay)))))))"
proof (intro conjI impI)
  assume "10 < length genes"
  then show "update_visualization sv st (Some genes) g v l = (st, Inr too_many_genes_alert)"
    by (rule update_visualization_too_many)
next
  assume ten: "length genes = 10"
  then have "genes \<noteq> []" by auto
  with ten have eq: "update_visualization sv st (Some genes) g v l =
      build_visualization sv st genes g v l"
    by (simp add: update_visualization_accepts)
  show "snd (update_visualization sv st (Some genes) g v l) \<noteq> Inr too_many_genes_alert"
    unfolding eq by (rule build_visualization_not_too_many)
  show "snd (update_visualization sv st (Some genes) g v l) = Inr no_data_alert"
    if "get_expression_for_genes (rows (frames st (loader_expression_data st))) genes = []"
    unfolding eq using that by (rule build_visualization_no_data)
  assume found:
    "get_expression_for_genes (rows (frames st (loader_expression_data st))) genes \<noteq> []"
  show "snd (update_visualization sv st (Some genes) g v l) = Inr invalid_type_alert"
    if "v \<noteq> ''heatmap'' \<and> v \<noteq> ''bar'' \<and> v \<noteq> ''box''"
    unfolding eq using that build_visualization_invalid [OF found] by blast
  assume ord: "distinct (chart_order (loader_tissue_groups st)
      (rows (frames st (loader_expression_data st))) genes g)"
  show "\<exists>hm lay. snd (update_visualization sv st (Some genes) g v l) =
      Inr (Graph (HeatmapFigure hm lay))"
    if "v = ''heatmap'' \<and>
        distinct (map (\<lambda>r. (Gene_name r, Tissue r))
          (chart_rows (loader_tissue_groups st)
             (rows (frames st (loader_expression_data st))) genes g))"
    unfolding eq using that build_visualization_heatmap_ok [OF found ord] by blast
  show "\<exists>ts lay. snd (update_visualization sv st (Some genes) g v l) =
      Inr (Graph (BarFigure ts lay))" if "v = ''bar''"
    unfolding eq using that build_visualization_bar_ok [OF found ord] by blast
  show "\<exists>ts lay. snd (update_visualization sv st (Some genes) g v l) =
      Inr (Graph (BoxFigure ts lay))" if "v = ''box''"
    unfolding eq using that build_visualization_box_ok [OF found ord] by blast
qed

text \<open>
  Claim C8. For the empty selection, which Dash passes as \<^verbatim>\<open>None\<close> or as the empty
  list, the callback returns the informational alert that asks for a selection:
  no exception, no graph, and the store untouched.
\<close>

theorem empty_selection_prompt:
  "update_visualization sv st None g v l =
     (st, Inr (Alert ''Please select one or more genes to visualize'' Info)) \<and>
   update_visualization sv st (Some []) g v l =
     (st, Inr (Alert ''Please select one or more genes to visualize'' Info))"
  by (simp add: update_visualization_def select_genes_alert_def)

text \<open>
  Over the reals, the value that the hover text recovers from a log-transformed
  value is the original one; the rounding of float64 is not modelled.
\<close>

lemma log_round_trip_exact:
  assumes "0 \<le> nTPM r"
  shows "2 powr (nTPM (log_transform r)) - 1 = nTPM r"
  using assms by (simp add: log_transform_def powr_log_cancel)

text \<open>
  Claim C5, counterexample to the claim as stated: ten selected genes of which
  the table has none; the selection passes the check of the size and no chart is
  built.
\<close>

theorem selection_size_gate_counterexample:
  "length [''G1'', ''G2'', ''G3'', ''G4'', ''G5'', ''G6'', ''G7'', ''G8'', ''G9'', ''G10''] = 10 \<and>
   snd (update_visualization stable_sort_values
      (initial_store [\<lparr>Gene = ''ENSG1'', Gene_name = ''ALB'', Tissue = ''liver'', nTPM = 5\<rparr>]
         [(''Liver'', [''liver''])])
      (Some [''G1'', ''G2'', ''G3'', ''G4'', ''G5'', ''G6'', ''G7'', ''G8'', ''G9'', ''G10''])
      ''tissue'' ''heatmap'' ''linear'') =
   Inr (Alert ''No expression data found for selected genes'' Warning)"
proof -
  let ?ten = "[''G1'', ''G2'', ''G3'', ''G4'', ''G5'', ''G6'', ''G7'', ''G8'', ''G9'', ''G10'']"
  let ?st = "initial_store
      [\<lparr>Gene = ''ENSG1'', Gene_name = ''ALB'', Tissue = ''liver'', nTPM = 5\<rparr>]
      [(''Liver'', [''liver''])]"
  have 1: "get_expression_for_genes (rows (frames ?st (loader_expression_data ?st))) ?ten = []"
    by code_simp
  have "update_visualization stable_sort_values ?st (Some ?ten) ''tissue'' ''heatmap'' ''linear'' =
      build_visualization stable_sort_values ?st ?ten ''tissue'' ''heatmap'' ''linear''"
    by (rule update_visualization_accepts) simp_all
  with build_visualization_no_data [OF 1] show ?thesis
    by (simp add: no_data_alert_def)
qed

text \<open>
  Claim C5, witness: on a table of eleven genes, the selection of all eleven is
  rejected and the selection of ten of them gives the graph of a heatmap.
\<close>

theorem selection_size_gate_witness:
  "update_visualization stable_sort_values
      (initial_store
         (map (\<lambda>n. \<lparr>Gene = n, Gene_name = n, Tissue = ''liver'', nTPM = 5\<rparr>)
            [''G1'', ''G2'', ''G3'', ''G4'', ''G5'', ''G6'', ''G7'', ''G8'', ''G9'', ''G10'', ''G11''])
         [(''Liver'', [''liver''])])
      (Some [''G1'', ''G2'', ''G3'', ''G4'', ''G5'', ''G6'', ''G7'', ''G8'', ''G9'', ''G10'', ''G11''])
      ''tissue'' ''heatmap'' ''linear'' =
     (initial_store
         (map (\<lambda>n. \<lparr>Gene = n, Gene_name = n, Tissue = ''liver'', nTPM = 5\<rparr>)
            [''G1'', ''G2'', ''G3'', ''G4'', ''G5'', ''G6'', ''G7'', ''G8'', ''G9'', ''G10'', ''G11''])
         [(''Liver'', [''liver''])],
      Inr (Alert ''Please select no more than 10 genes'' Warning)) \<and>
   (\<exists>hm lay. snd (update_visualization stable_sort_values
      (initial_store
         (map (\<lambda>n. \<lparr>Gene = n, Gene_name = n, Tissue = ''liver'', nTPM = 5\<rparr>)
            [''G1'', ''G2'', ''G3'', ''G4'', ''G5'', ''G6'', ''G7'', ''G8'', ''G9'', ''G10'', ''G11''])
         [(''Liver'', [''liver''])])
      (Some [''G1'', ''G2'', ''G3'', ''G4'', ''G5'', ''G6'', ''G7'', ''G8'', ''G9'', ''G10''])
      ''tissue'' ''heatmap'' ''linear'') = Inr (Graph (HeatmapFigure hm lay)))"
proof -
  let ?names = "[''G1'', ''G2'', ''G3'', ''G4'', ''G5'', ''G6'', ''G7'', ''G8'', ''G9'', ''G10'', ''G11'']"
  let ?ten = "[''G1'', ''G2'', ''G3'', ''G4'', ''G5'', ''G6'', ''G7'', ''G8'', ''G9'', ''G10'']"
  let ?st = "initial_store
         (map (\<lambda>n. \<lparr>Gene = n, Gene_name = n, Tissue = ''liver'', nTPM = 5\<rparr>) ?names)
         [(''Liver'', [''liver''])]"
  have 1: "10 < length ?names" by simp
  have 2: "length ?ten = 10" by simp
  have 3: "get_expression_for_genes (rows (frames ?st (loader_expression_data ?st))) ?ten \<noteq> []"
    by code_simp
  have 4: "distinct (chart_order (loader_tissue_groups ?st)
        (rows (frames ?st (loader_expression_data ?st))) ?ten ''tissue'')"
    by code_simp
  have 5: "distinct (map (\<lambda>r. (Gene_name r, Tissue r))
        (chart_rows (loader_tissue_groups ?st)
           (rows (frames ?st (loader_expression_data ?st))) ?ten ''tissue''))"
    by code_simp
  from selection_size_gate [of ?names stable_sort_values ?st "''tissue''" "''heatmap''" "''linear''"] 1
  have a: "update_visualization stable_sort_values ?st (Some ?names) ''tissue'' ''heatmap'' ''linear'' =
      (?st, Inr (Alert ''Please select no more than 10 genes'' Warning))"
    by (simp add: too_many_genes_alert_def)
  from selection_size_gate [of ?ten stable_sort_values ?st "''tissue''" "''heatmap''" "''linear''"]
    2 3 4 5
  have b: "\<exists>hm lay. snd (update_visualization stable_sort_values ?st (Some ?ten)
            ''tissue'' ''heatmap'' ''linear'') = Inr (Graph (HeatmapFigure hm lay))"
    by blast
  from a b show ?thesis by blast
qed

end
